theory Spec2Isabelle
  imports Complex_Main
begin

section \<open>Solar-system Shapiro delay (pint/models/solar\_system\_shapiro.py)\<close>

text \<open>
  The module defines one timing-model component, \<open>SolarSystemShapiro\<close>, with a boolean
  parameter \<open>PLANET_SHAPIRO\<close>, the static formula \<open>ss_obj_shapiro_delay\<close> and the
  aggregate \<open>solar_system_shapiro_delay\<close> over grouped times of arrival.

  Conventions of the embedding:
  \<^item> a finite float is a \<open>real\<close> (rounding and overflow are not modelled); the values
    that \<open>numpy.log\<close> produces outside its domain (\<open>-inf\<close> at 0, \<open>nan\<close> below 0) and
    their arithmetic are the constructors of \<open>npfloat\<close>;
  \<^item> a length with a unit is its value in metres, so multiplying by
    \<open>obj_pos.unit\<close> and dividing by \<open>const.au\<close> are a multiplication by one and a
    division by the number of metres in an astronomical unit; \<open>.value\<close> is the identity;
  \<^item> an exception is a value of \<open>error\<close> on the left of a sum;
  \<^item> the logger is a list of emitted messages, threaded through the aggregate.
\<close>

subsection \<open>The PLANET\_SHAPIRO parameter: parse\_value and print\_value\<close>

text \<open>
  \<open>str.upper()\<close> on the seven-bit letters. A character outside \<open>a..z\<close> is returned as it
  is; Python maps some characters beyond ASCII to other characters beyond ASCII (or to
  \<open>SS\<close> for the sharp s), none of which yields the one-character string \<open>Y\<close>.
\<close>

definition upper_char :: "char \<Rightarrow> char" where
  "upper_char c =
     (let n = (of_char c :: nat)
      in if 97 \<le> n \<and> n \<le> 122 then char_of (n - 32) else c)"

definition upper :: "string \<Rightarrow> string" where
  "upper x = map upper_char x"

text \<open>\<open>parse_value=lambda x: x.upper() == 'Y'\<close>\<close>

definition parse_value :: "string \<Rightarrow> bool" where
  "parse_value x = (upper x = ''Y'')"

text \<open>\<open>print_value=lambda x: 'Y' if x else 'N'\<close>\<close>

definition print_value :: "bool \<Rightarrow> string" where
  "print_value x = (if x then ''Y'' else ''N'')"

subsection \<open>Floats, vectors and errors\<close>

datatype npfloat = Fin real | PInf | NInf | NaN

datatype error =
    KeyError string
  | IndexError
  | ValueError
  | OtherError string

type_synonym vec3 = "real \<times> real \<times> real"

text \<open>\<open>const.au\<close>, in metres.\<close>

definition au :: real where
  "au = 149597870700"

text \<open>\<open>numpy.log\<close> on one element: \<open>-inf\<close> at zero, \<open>nan\<close> on a negative argument.\<close>

definition np_log :: "real \<Rightarrow> npfloat" where
  "np_log x = (if 0 < x then Fin (ln x) else if x = 0 then NInf else NaN)"

text \<open>A finite Python float times an array element.\<close>

fun np_scale :: "real \<Rightarrow> npfloat \<Rightarrow> npfloat" where
  "np_scale c (Fin x) = Fin (c * x)"
| "np_scale c PInf = (if 0 < c then PInf else if c < 0 then NInf else NaN)"
| "np_scale c NInf = (if 0 < c then NInf else if c < 0 then PInf else NaN)"
| "np_scale c NaN = NaN"

text \<open>Addition of two array elements.\<close>

fun np_add :: "npfloat \<Rightarrow> npfloat \<Rightarrow> npfloat" where
  "np_add (Fin x) (Fin y) = Fin (x + y)"
| "np_add NaN y = NaN"
| "np_add x NaN = NaN"
| "np_add PInf NInf = NaN"
| "np_add NInf PInf = NaN"
| "np_add PInf y = PInf"
| "np_add x PInf = PInf"
| "np_add NInf y = NInf"
| "np_add x NInf = NInf"

text \<open>Elementwise operations on the rows of an \<open>(N, 3)\<close> array and the sum over axis 1.\<close>

fun vsq :: "vec3 \<Rightarrow> vec3" where
  "vsq (x, y, z) = (x\<^sup>2, y\<^sup>2, z\<^sup>2)"

fun vmul :: "vec3 \<Rightarrow> vec3 \<Rightarrow> vec3" where
  "vmul (x, y, z) (a, b, c) = (x * a, y * b, z * c)"

fun sum_axis1 :: "vec3 \<Rightarrow> real" where
  "sum_axis1 (x, y, z) = x + y + z"

text \<open>
  numpy broadcasting along the first axis: two arrays combine when they have the same
  number of rows or when one of them has exactly one row, which is then repeated;
  otherwise the operation raises \<open>ValueError\<close>.
\<close>

definition broadcast2 :: "'a list \<Rightarrow> 'b list \<Rightarrow> error + ('a \<times> 'b) list" where
  "broadcast2 xs ys =
     (if length xs = length ys then Inr (zip xs ys)
      else if length xs = 1 then Inr (map (\<lambda>y. (hd xs, y)) ys)
      else if length ys = 1 then Inr (map (\<lambda>x. (x, hd ys)) xs)
      else Inl ValueError)"

subsection \<open>ss\_obj\_shapiro\_delay\<close>

text \<open>
  \<^verbatim>\<open>
  r = (numpy.sqrt(numpy.sum(obj_pos**2, axis=1))) * obj_pos.unit
  rcostheta = numpy.sum(obj_pos*psr_dir, axis=1)
  return -2.0 * T_obj * numpy.log((r-rcostheta)/const.au).value
  \<close>
\<close>

definition ss_obj_shapiro_delay :: "vec3 list \<Rightarrow> vec3 list \<Rightarrow> real \<Rightarrow> error + npfloat list" where
  "ss_obj_shapiro_delay obj_pos psr_dir T_obj =
     (let r = map (\<lambda>p. sqrt (sum_axis1 (vsq p))) obj_pos
      in case broadcast2 obj_pos psr_dir of
           Inl e \<Rightarrow> Inl e
         | Inr pd \<Rightarrow>
             (let rcostheta = map (\<lambda>(p, d). sum_axis1 (vmul p d)) pd
              in case broadcast2 r rcostheta of
                   Inl e \<Rightarrow> Inl e
                 | Inr rr \<Rightarrow>
                     Inr (map (\<lambda>(a, b). np_scale (- 2 * T_obj) (np_log ((a - b) / au))) rr)))"

subsection \<open>The component, the table of TOAs and its groups\<close>

text \<open>
  The masses in time units imported from the package (\<open>Tsun\<close>, ..., \<open>Tneptune\<close>) are
  parameters of the model; \<open>ss_mass_sec\<close> is the class dictionary \<open>_ss_mass_sec\<close>.
\<close>

record masses =
  Tsun :: real
  Tmercury :: real
  Tvenus :: real
  Tearth :: real
  Tmars :: real
  Tjupiter :: real
  Tsaturn :: real
  Turanus :: real
  Tneptune :: real

definition ss_mass_sec :: "masses \<Rightarrow> (string \<times> real) list" where
  "ss_mass_sec m =
     [(''sun'', Tsun m),
      (''mercury'', Tmercury m),
      (''venus'', Tvenus m),
      (''earth'', Tearth m),
      (''mars'', Tmars m),
      (''jupiter'', Tjupiter m),
      (''saturn'', Tsaturn m),
      (''uranus'', Turanus m),
      (''neptune'', Tneptune m)]"

definition dict_getitem :: "(string \<times> 'v) list \<Rightarrow> string \<Rightarrow> error + 'v" where
  "dict_getitem d k = (case map_of d k of None \<Rightarrow> Inl (KeyError k) | Some v \<Rightarrow> Inr v)"

text \<open>
  The component: the value of \<open>PLANET_SHAPIRO\<close>, the method \<open>ssb_to_psb_xyz\<close> that another
  component of the timing model provides (any function from the epochs of a group to an
  array of direction vectors, or to an exception), and the mass constants.
\<close>

record solar_system_shapiro =
  PLANET_SHAPIRO :: bool
  ssb_to_psb_xyz :: "real list \<Rightarrow> error + vec3 list"
  ss_masses :: masses

text \<open>
  A row of the table holds the epoch \<open>tdbld\<close> and one 3-vector per position column; the
  table knows which position columns it has. \<open>group_keys\<close> is the \<open>obs\<close> value of each
  row of \<open>toas.groups.keys\<close> and \<open>group_indices\<close> is \<open>toas.groups.indices\<close>.
\<close>

record row =
  tdbld :: real
  cells :: "string \<Rightarrow> vec3"

record toa_table =
  colnames :: "string list"
  rows :: "row list"
  group_keys :: "string list"
  group_indices :: "nat list"

text \<open>
  \<open>toas.groups[ii]\<close>: the rows from \<open>indices[ii]\<close> up to \<open>indices[ii + 1]\<close>, with Python's
  clipping of a slice; reading either index out of range raises \<open>IndexError\<close>.
\<close>

definition groups_getitem :: "toa_table \<Rightarrow> nat \<Rightarrow> error + row list" where
  "groups_getitem toas ii =
     (if ii + 1 < length (group_indices toas)
      then Inr (take (group_indices toas ! (ii + 1) - group_indices toas ! ii)
                  (drop (group_indices toas ! ii) (rows toas)))
      else Inl IndexError)"

text \<open>
  \<open>loind, hiind = toas.groups.indices[ii:ii+2]\<close>: unpacking a slice with fewer than two
  elements raises \<open>ValueError\<close>.
\<close>

definition indices_pair :: "toa_table \<Rightarrow> nat \<Rightarrow> error + (nat \<times> nat)" where
  "indices_pair toas ii =
     (case take 2 (drop ii (group_indices toas)) of
        [loind, hiind] \<Rightarrow> Inr (loind, hiind)
      | _ \<Rightarrow> Inl ValueError)"

text \<open>\<open>grp[name]\<close> for a position column: \<open>KeyError\<close> when the table has no such column.\<close>

definition table_getitem :: "string list \<Rightarrow> row list \<Rightarrow> string \<Rightarrow> error + vec3 list" where
  "table_getitem names grp name =
     (if name \<in> set names then Inr (map (\<lambda>r. cells r name) grp) else Inl (KeyError name))"

text \<open>
  \<open>delay[loind:hiind] += x\<close>: the slice is clipped to the array; \<open>x\<close> is broadcast to the
  slice and must have the slice's shape afterwards, since the sum is stored in place.
\<close>

definition slice_iadd :: "npfloat list \<Rightarrow> nat \<Rightarrow> nat \<Rightarrow> npfloat list \<Rightarrow> error + npfloat list" where
  "slice_iadd delay loind hiind x =
     (let seg = take (hiind - loind) (drop loind delay)
      in case broadcast2 seg x of
           Inl e \<Rightarrow> Inl e
         | Inr sx \<Rightarrow>
             if length sx = length seg
             then Inr (take loind delay @ map (\<lambda>(a, b). np_add a b) sx
                         @ drop (loind + length seg) delay)
             else Inl ValueError)"

subsection \<open>solar\_system\_shapiro\_delay\<close>

text \<open>
  One statement
  \<^verbatim>\<open>delay[loind:hiind] += self.ss_obj_shapiro_delay(grp['obs_'+pl+'_pos'],
                                      psr_dir, self._ss_mass_sec[pl])\<close>
  for the body \<open>pl\<close> (the Sun's statement is the same with \<open>pl = 'sun'\<close>).
\<close>

definition add_obj_delay ::
  "solar_system_shapiro \<Rightarrow> string list \<Rightarrow> row list \<Rightarrow> vec3 list \<Rightarrow> nat \<Rightarrow> nat \<Rightarrow> string
     \<Rightarrow> npfloat list \<Rightarrow> error + npfloat list" where
  "add_obj_delay self names grp psr_dir loind hiind pl delay =
     (case table_getitem names grp (''obs_'' @ pl @ ''_pos'') of
        Inl e \<Rightarrow> Inl e
      | Inr obj_pos \<Rightarrow>
          (case dict_getitem (ss_mass_sec (ss_masses self)) pl of
             Inl e \<Rightarrow> Inl e
           | Inr T_obj \<Rightarrow>
               (case ss_obj_shapiro_delay obj_pos psr_dir T_obj of
                  Inl e \<Rightarrow> Inl e
                | Inr x \<Rightarrow> slice_iadd delay loind hiind x)))"

text \<open>\<open>for pl in ('jupiter', 'saturn', 'venus', 'uranus'): delay[loind:hiind] += ...\<close>\<close>

fun planets_loop ::
  "solar_system_shapiro \<Rightarrow> string list \<Rightarrow> row list \<Rightarrow> vec3 list \<Rightarrow> nat \<Rightarrow> nat \<Rightarrow> string list
     \<Rightarrow> npfloat list \<Rightarrow> error + npfloat list" where
  "planets_loop self names grp psr_dir loind hiind [] delay = Inr delay"
| "planets_loop self names grp psr_dir loind hiind (pl # pls) delay =
     (case add_obj_delay self names grp psr_dir loind hiind pl delay of
        Inl e \<Rightarrow> Inl e
      | Inr delay' \<Rightarrow> planets_loop self names grp psr_dir loind hiind pls delay')"

definition skip_message :: string where
  "skip_message = ''Skipping Shapiro delay for Barycentric TOAs''"

text \<open>
  The statements of the loop body that follow the test for the barycentre:
  \<^verbatim>\<open>
  psr_dir = self.ssb_to_psb_xyz(epoch=grp['tdbld'].astype(numpy.float64))
  delay[loind:hiind] += self.ss_obj_shapiro_delay(grp['obs_sun_pos'],
                          psr_dir, self._ss_mass_sec['sun'])
  if self.PLANET_SHAPIRO.value:
      for pl in ('jupiter', 'saturn', 'venus', 'uranus'):
          delay[loind:hiind] += ...
  \<close>
\<close>

definition group_delay ::
  "solar_system_shapiro \<Rightarrow> string list \<Rightarrow> row list \<Rightarrow> nat \<Rightarrow> nat \<Rightarrow> npfloat list
     \<Rightarrow> error + npfloat list" where
  "group_delay self names grp loind hiind delay =
     (case ssb_to_psb_xyz self (map tdbld grp) of
        Inl e \<Rightarrow> Inl e
      | Inr psr_dir \<Rightarrow>
          (case add_obj_delay self names grp psr_dir loind hiind ''sun'' delay of
             Inl e \<Rightarrow> Inl e
           | Inr delay' \<Rightarrow>
               if PLANET_SHAPIRO self
               then planets_loop self names grp psr_dir loind hiind
                      [''jupiter'', ''saturn'', ''venus'', ''uranus''] delay'
               else Inr delay'))"

text \<open>
  The body of the loop over the groups, for the group number \<open>ii\<close> with key \<open>key\<close>:
  \<^verbatim>\<open>
  grp = toas.groups[ii]
  loind, hiind = toas.groups.indices[ii:ii+2]
  if key['obs'] == 'Barycenter':
      log.info("Skipping Shapiro delay for Barycentric TOAs")
      continue
  ...
  \<close>
  It returns the updated delay array or the exception raised, and the log. (The unused
  \<open>obs = toas.groups.keys[ii]['obs']\<close> reads the row the loop is at and cannot fail.)
\<close>

definition group_body ::
  "solar_system_shapiro \<Rightarrow> toa_table \<Rightarrow> nat \<Rightarrow> string \<Rightarrow> npfloat list \<Rightarrow> string list
     \<Rightarrow> (error + npfloat list) \<times> string list" where
  "group_body self toas ii key delay lg =
     (case groups_getitem toas ii of
        Inl e \<Rightarrow> (Inl e, lg)
      | Inr grp \<Rightarrow>
          (case indices_pair toas ii of
             Inl e \<Rightarrow> (Inl e, lg)
           | Inr (loind, hiind) \<Rightarrow>
               if key = ''Barycenter''
               then (Inr delay, lg @ [skip_message])
               else (group_delay self (colnames toas) grp loind hiind delay, lg)))"

text \<open>\<open>for ii, key in enumerate(toas.groups.keys): ...\<close>; an exception ends the loop.\<close>

fun groups_loop ::
  "solar_system_shapiro \<Rightarrow> toa_table \<Rightarrow> (nat \<times> string) list \<Rightarrow> npfloat list \<Rightarrow> string list
     \<Rightarrow> (error + npfloat list) \<times> string list" where
  "groups_loop self toas [] delay lg = (Inr delay, lg)"
| "groups_loop self toas ((ii, key) # rest) delay lg =
     (case group_body self toas ii key delay lg of
        (Inl e, lg') \<Rightarrow> (Inl e, lg')
      | (Inr delay', lg') \<Rightarrow> groups_loop self toas rest delay' lg')"

text \<open>
  \<open>delay = numpy.zeros(len(toas))\<close>, the loop, \<open>return delay\<close>. The argument \<open>lg\<close> is the
  log before the call; the result carries the log after it.
\<close>

definition solar_system_shapiro_delay ::
  "solar_system_shapiro \<Rightarrow> toa_table \<Rightarrow> string list \<Rightarrow> (error + npfloat list) \<times> string list" where
  "solar_system_shapiro_delay self toas lg =
     groups_loop self toas (enumerate 0 (group_keys toas))
       (replicate (length (rows toas)) (Fin 0)) lg"

subsection \<open>Notions used to state the properties\<close>

text \<open>
  The delay of one object for one observation, written with the components of the position
  \<open>(px, py, pz)\<close> and of the direction \<open>(dx, dy, dz)\<close>:
  \<open>-2 T log ((r - rcostheta) / au)\<close> with \<open>r\<close> the Euclidean norm of the position and
  \<open>rcostheta\<close> its dot product with the direction.
\<close>

fun shapiro_term :: "vec3 \<Rightarrow> vec3 \<Rightarrow> real \<Rightarrow> npfloat" where
  "shapiro_term (px, py, pz) (dx, dy, dz) T =
     np_scale (- 2 * T)
       (np_log ((sqrt (px\<^sup>2 + py\<^sup>2 + pz\<^sup>2) - (px * dx + py * dy + pz * dz)) / au))"

text \<open>
  Broadcasting in terms of indices: the row that position \<open>i\<close> of the result reads from an
  array of \<open>n\<close> rows, and the number of rows of the result.
\<close>

definition bidx :: "nat \<Rightarrow> nat \<Rightarrow> nat" where
  "bidx n i = (if n = 1 then 0 else i)"

definition blen :: "nat \<Rightarrow> nat \<Rightarrow> nat" where
  "blen m k = (if m = 1 then k else m)"

text \<open>The argument of the logarithm before the division: \<open>r - rcostheta\<close> for one row.\<close>

definition light_path :: "vec3 \<Rightarrow> vec3 \<Rightarrow> real" where
  "light_path p d = sqrt (sum_axis1 (vsq p)) - sum_axis1 (vmul p d)"

text \<open>
  The mass that \<open>_ss_mass_sec\<close> holds for a body, the name of a body's position column,
  and the delay of the body \<open>pl\<close> for the observation \<open>i\<close> of a group that starts at
  \<open>loind\<close>.
\<close>

definition mass_of :: "masses \<Rightarrow> string \<Rightarrow> real" where
  "mass_of m pl = (case map_of (ss_mass_sec m) pl of Some v \<Rightarrow> v | None \<Rightarrow> 0)"

definition pos_column :: "string \<Rightarrow> string" where
  "pos_column pl = ''obs_'' @ pl @ ''_pos''"

definition obj_term :: "solar_system_shapiro \<Rightarrow> row list \<Rightarrow> vec3 list \<Rightarrow> nat \<Rightarrow> nat \<Rightarrow> string \<Rightarrow> npfloat" where
  "obj_term self rws psr_dir loind i pl =
     shapiro_term (cells (rws ! i) (pos_column pl))
       (psr_dir ! bidx (length psr_dir) (i - loind)) (mass_of (ss_masses self) pl)"

text \<open>
  The index range of the group \<open>ii\<close>, its rows, and the bodies whose delays are added
  for a value of \<open>PLANET_SHAPIRO\<close>.
\<close>

definition in_group :: "toa_table \<Rightarrow> nat \<Rightarrow> nat \<Rightarrow> bool" where
  "in_group toas ii i =
     (group_indices toas ! ii \<le> i \<and> i < group_indices toas ! (ii + 1))"

definition group_rows :: "toa_table \<Rightarrow> nat \<Rightarrow> row list" where
  "group_rows toas ii =
     take (group_indices toas ! (ii + 1) - group_indices toas ! ii)
       (drop (group_indices toas ! ii) (rows toas))"

definition bodies :: "bool \<Rightarrow> string list" where
  "bodies planets =
     (if planets then [''sun'', ''jupiter'', ''saturn'', ''venus'', ''uranus''] else [''sun''])"

text \<open>
  The position columns of the planets that are not part of the planetary term, and two
  tables that are the same except for the presence and the contents of given columns.
\<close>

definition excluded_columns :: "string list" where
  "excluded_columns =
     [''obs_mercury_pos'', ''obs_earth_pos'', ''obs_mars_pos'', ''obs_neptune_pos'']"

definition same_except :: "string list \<Rightarrow> toa_table \<Rightarrow> toa_table \<Rightarrow> bool" where
  "same_except cols a b =
     (group_keys a = group_keys b \<and> group_indices a = group_indices b
      \<and> map tdbld (rows a) = map tdbld (rows b)
      \<and> (\<forall>c. c \<notin> set cols \<longrightarrow>
            (c \<in> set (colnames a) \<longleftrightarrow> c \<in> set (colnames b))
            \<and> map (\<lambda>r. cells r c) (rows a) = map (\<lambda>r. cells r c) (rows b)))"

text \<open>The delay of one body for the observation \<open>i\<close> of the group \<open>ii\<close>.\<close>

definition body_term :: "toa_table \<Rightarrow> vec3 list \<Rightarrow> nat \<Rightarrow> nat \<Rightarrow> string \<Rightarrow> real \<Rightarrow> npfloat" where
  "body_term toas psr_dir ii i col T =
     shapiro_term (cells (rows toas ! i) col)
       (psr_dir ! bidx (length psr_dir) (i - group_indices toas ! ii)) T"

text \<open>
  The direction vectors that the provider returns for the group \<open>ii\<close>, and a batch that
  has what the loop reads: one more group index than groups and, for every group that is
  not barycentric, one direction vector per observation and the position column of every
  body that is added for the value of \<open>PLANET_SHAPIRO\<close>.
\<close>

definition psr_dir_of :: "solar_system_shapiro \<Rightarrow> toa_table \<Rightarrow> nat \<Rightarrow> vec3 list" where
  "psr_dir_of self toas ii =
     (case ssb_to_psb_xyz self (map tdbld (group_rows toas ii)) of
        Inl e \<Rightarrow> []
      | Inr psr_dir \<Rightarrow> psr_dir)"

definition complete_batch :: "solar_system_shapiro \<Rightarrow> toa_table \<Rightarrow> bool" where
  "complete_batch self toas =
     (length (group_indices toas) = length (group_keys toas) + 1
      \<and> (\<forall>ii<length (group_keys toas).
            group_keys toas ! ii \<noteq> ''Barycenter'' \<longrightarrow>
              (\<exists>psr_dir. ssb_to_psb_xyz self (map tdbld (group_rows toas ii)) = Inr psr_dir
                  \<and> length psr_dir = length (group_rows toas ii))
              \<and> (\<forall>pl \<in> set (bodies (PLANET_SHAPIRO self)).
                    ''obs_'' @ pl @ ''_pos'' \<in> set (colnames toas))))"

text \<open>
  The delays that the group \<open>k\<close> adds to the observation \<open>i\<close>, in the order of the code
  (none when the observation is outside the group or the group is barycentric), and the
  delays that all groups add to it, in the order of the loop.
\<close>

definition group_terms :: "solar_system_shapiro \<Rightarrow> toa_table \<Rightarrow> nat \<Rightarrow> nat \<times> string \<Rightarrow> npfloat list" where
  "group_terms self toas i k =
     (if in_group toas (fst k) i \<and> snd k \<noteq> ''Barycenter''
      then map (\<lambda>pl.
                 shapiro_term (cells (rows toas ! i) (''obs_'' @ pl @ ''_pos''))
                   (psr_dir_of self toas (fst k) ! (i - group_indices toas ! fst k))
                   (mass_of (ss_masses self) pl))
             (bodies (PLANET_SHAPIRO self))
      else [])"

definition contributions :: "solar_system_shapiro \<Rightarrow> toa_table \<Rightarrow> nat \<Rightarrow> npfloat list" where
  "contributions self toas i =
     concat (map (group_terms self toas i) (enumerate 0 (group_keys toas)))"

text \<open>
  The delay of one body for the observation \<open>i\<close> of the group \<open>ii\<close>, with the
  direction vector of that observation.
\<close>

definition delay_term ::
  "solar_system_shapiro \<Rightarrow> toa_table \<Rightarrow> nat \<Rightarrow> nat \<Rightarrow> string \<Rightarrow> real \<Rightarrow> npfloat" where
  "delay_term self toas ii i col T =
     shapiro_term (cells (rows toas ! i) col)
       (psr_dir_of self toas ii ! (i - group_indices toas ! ii)) T"

subsection \<open>A concrete batch\<close>

text \<open>
  Two observations: one at the barycentre, whose position vectors are degenerate, and one at
  an observatory whose bodies all lie at \<open>e\<close> astronomical units, at right angles to the
  pulsar, so that each body with mass \<open>T\<close> contributes \<open>-2 T\<close>. The direction provider
  returns one unit vector per epoch.
\<close>

definition example_masses :: masses where
  "example_masses =
     \<lparr>Tsun = 1, Tmercury = 6, Tvenus = 4, Tearth = 7, Tmars = 8,
      Tjupiter = 2, Tsaturn = 3, Turanus = 5, Tneptune = 9\<rparr>"

definition example_model :: solar_system_shapiro where
  "example_model =
     \<lparr>PLANET_SHAPIRO = True,
      ssb_to_psb_xyz = (\<lambda>epochs. Inr (map (\<lambda>t. (1, 0, 0)) epochs)),
      ss_masses = example_masses\<rparr>"

definition example_row :: row where
  "example_row = \<lparr>tdbld = 0, cells = (\<lambda>name. (0, exp 1 * au, 0))\<rparr>"

definition example_bary_row :: row where
  "example_bary_row = \<lparr>tdbld = 0, cells = (\<lambda>name. (0, 0, 0))\<rparr>"

definition example_toas :: toa_table where
  "example_toas =
     \<lparr>colnames = [''obs_sun_pos'', ''obs_jupiter_pos'', ''obs_saturn_pos'',
                  ''obs_venus_pos'', ''obs_uranus_pos''],
      rows = [example_bary_row, example_row],
      group_keys = [''Barycenter'', ''gbt''],
      group_indices = [0, 1, 2]\<rparr>"

text \<open>
  The same batch with a column for Mercury added, and the batch with only the Sun's
  column.
\<close>

definition example_toas_mercury :: toa_table where
  "example_toas_mercury =
     example_toas
       \<lparr>colnames := ''obs_mercury_pos'' # colnames example_toas,
        rows := map (\<lambda>r. r\<lparr>cells := (cells r)(''obs_mercury_pos'' := (1, 2, 3))\<rparr>)
                  (rows example_toas)\<rparr>"

definition example_toas_no_jupiter :: toa_table where
  "example_toas_no_jupiter = example_toas\<lparr>colnames := [''obs_sun_pos'']\<rparr>"

text \<open>
  A batch with a group of two observations, the second with its bodies at \<open>e\<^sup>2\<close>
  astronomical units (each body with mass \<open>T\<close> contributes \<open>-4 T\<close>), and the component
  with \<open>PLANET_SHAPIRO\<close> false.
\<close>

definition example_row2 :: row where
  "example_row2 = \<lparr>tdbld = 1, cells = (\<lambda>name. (0, exp 2 * au, 0))\<rparr>"

definition example_toas3 :: toa_table where
  "example_toas3 =
     \<lparr>colnames = [''obs_sun_pos'', ''obs_jupiter_pos'', ''obs_saturn_pos'',
                  ''obs_venus_pos'', ''obs_uranus_pos''],
      rows = [example_bary_row, example_row, example_row2],
      group_keys = [''Barycenter'', ''gbt''],
      group_indices = [0, 1, 3]\<rparr>"

definition example_model_sun :: solar_system_shapiro where
  "example_model_sun = example_model\<lparr>PLANET_SHAPIRO := False\<rparr>"

section \<open>Properties of the parameter's parse and print functions\<close>

lemma upper_char_eq_Y: "upper_char c = CHR ''Y'' \<longleftrightarrow> c = CHR ''Y'' \<or> c = CHR ''y''"
proof -
  define n where "n = (of_char c :: nat)"
  have c: "c = char_of n" by (simp add: n_def)
  have nlt: "n < 256" unfolding n_def by simp
  have Y: "CHR ''Y'' = char_of (89::nat)" by (rule sym) (simp add: char_of_eq_iff)
  have y: "CHR ''y'' = char_of (121::nat)" by (rule sym) (simp add: char_of_eq_iff)
  have eq: "\<And>a b::nat. a < 256 \<Longrightarrow> b < 256 \<Longrightarrow> (char_of a = char_of b) = (a = b)"
    by (simp add: char_of_eq_iff take_bit_nat_eq_self)
  have up: "upper_char c = (if 97 \<le> n \<and> n \<le> 122 then char_of (n - 32) else char_of n)"
    by (simp add: upper_char_def n_def Let_def)
  show ?thesis
    unfolding up unfolding c Y y using nlt
    by (auto simp: eq)
qed

lemma upper_eq_Y: "upper x = ''Y'' \<longleftrightarrow> x = ''Y'' \<or> x = ''y''"
  by (cases x) (auto simp: upper_def upper_char_eq_Y)

lemma upper_examples:
  "upper ''yes'' = ''YES''"
  "upper ''a z{`'' = ''A Z{`''"
  by (simp_all add: upper_def upper_char_def char_of_eq_iff)

text \<open>
  C8. Printing a value of \<open>PLANET_SHAPIRO\<close> and parsing the text gives the value back, for
  both booleans; \<open>True\<close> prints as \<open>Y\<close> and \<open>False\<close> as \<open>N\<close>.
\<close>

theorem parse_print_roundtrip:
  "parse_value (print_value True) = True \<and> parse_value (print_value False) = False
   \<and> print_value True = ''Y'' \<and> print_value False = ''N''"
  by (simp add: parse_value_def print_value_def upper_eq_Y)

text \<open>
  C9, as stated: printing what was parsed gives the text back, for every text that
  \<open>parse_value\<close> accepts. \<open>parse_value\<close> accepts every string, and the lower-case \<open>y\<close>
  parses to \<open>True\<close>, which prints as the upper-case \<open>Y\<close>.
\<close>

theorem print_parse_counterexample:
  "parse_value ''y'' = True \<and> print_value (parse_value ''y'') = ''Y''
   \<and> print_value (parse_value ''y'') \<noteq> ''y''"
  by (simp add: parse_value_def print_value_def upper_eq_Y)

text \<open>
  C9, amended: printing what was parsed gives the text back exactly for the two texts
  that \<open>print_value\<close> produces, \<open>Y\<close> and \<open>N\<close>.
\<close>

theorem print_parse_canonical:
  "print_value (parse_value t) = t \<longleftrightarrow> t = ''Y'' \<or> t = ''N''"
  by (auto simp add: parse_value_def print_value_def upper_eq_Y)

text \<open>
  C10. \<open>parse_value\<close> returns a boolean for every string (it has no failing branch): it
  is true exactly when the upper-cased string is \<open>Y\<close>, that is for \<open>Y\<close> and \<open>y\<close>, and
  false for every other string, among them \<open>N\<close>, the empty string and malformed text.
\<close>

theorem parse_value_total:
  "parse_value s = (upper s = ''Y'')
   \<and> (parse_value s \<longleftrightarrow> s = ''Y'' \<or> s = ''y'')
   \<and> parse_value ''N'' = False
   \<and> parse_value [] = False
   \<and> parse_value ''maybe'' = False
   \<and> parse_value ''YES'' = False"
  by (simp add: parse_value_def upper_eq_Y)

section \<open>The formula of one object\<close>

lemma au_pos: "0 < au" by (simp add: au_def)

lemma hd_single: "length xs = Suc 0 \<Longrightarrow> hd xs = xs ! 0"
  by (cases xs) auto

lemma broadcast2_Inr:
  assumes "broadcast2 xs ys = Inr zs"
  shows "length zs = blen (length xs) (length ys)"
    and "i < length zs \<Longrightarrow> zs ! i = (xs ! bidx (length xs) i, ys ! bidx (length ys) i)"
  using assms
  by (auto simp: broadcast2_def blen_def bidx_def hd_single split: if_splits)

lemma broadcast2_ok_iff:
  "(\<exists>zs. broadcast2 xs ys = Inr zs) \<longleftrightarrow> length xs = length ys \<or> length xs = 1 \<or> length ys = 1"
  by (auto simp: broadcast2_def)

lemma broadcast2_err: "broadcast2 xs ys = Inl e \<Longrightarrow> e = ValueError"
  by (auto simp: broadcast2_def split: if_splits)

lemma row_term:
  "np_scale (- (2 * T)) (np_log ((sqrt (sum_axis1 (vsq p)) - sum_axis1 (vmul p d)) / au)) = shapiro_term p d T"
  by (cases p; cases d) simp

lemma ss_obj_Inr:
  assumes "ss_obj_shapiro_delay obj_pos psr_dir T = Inr out"
  shows "length out = blen (length obj_pos) (length psr_dir)"
    and "i < length out \<Longrightarrow>
           out ! i = shapiro_term (obj_pos ! bidx (length obj_pos) i) (psr_dir ! bidx (length psr_dir) i) T"
proof -
  from assms obtain pd rr where
    pd: "broadcast2 obj_pos psr_dir = Inr pd" and
    rr: "broadcast2 (map (\<lambda>p. sqrt (sum_axis1 (vsq p))) obj_pos)
           (map (\<lambda>(p, d). sum_axis1 (vmul p d)) pd) = Inr rr" and
    out: "out = map (\<lambda>(a, b). np_scale (- 2 * T) (np_log ((a - b) / au))) rr"
    by (auto simp: ss_obj_shapiro_delay_def Let_def split: sum.splits)
  have lpd: "length pd = blen (length obj_pos) (length psr_dir)"
    using broadcast2_Inr(1)[OF pd] .
  have lrr: "length rr = blen (length obj_pos) (length pd)"
    using broadcast2_Inr(1)[OF rr] by simp
  have lrr': "length rr = blen (length obj_pos) (length psr_dir)"
    using lrr lpd by (auto simp: blen_def)
  show "length out = blen (length obj_pos) (length psr_dir)"
    using lrr' out by simp
  show "out ! i = shapiro_term (obj_pos ! bidx (length obj_pos) i) (psr_dir ! bidx (length psr_dir) i) T"
    if "i < length out"
  proof -
    have i: "i < length rr" using that out by simp
    have ipd: "i < length pd" using i lrr' lpd by simp
    have a: "bidx (length obj_pos) i < length obj_pos"
      using i lrr' by (auto simp: bidx_def blen_def split: if_splits)
    have b: "bidx (length pd) i < length pd"
      using ipd by (auto simp: bidx_def)
    have c: "bidx (length obj_pos) (bidx (length pd) i) = bidx (length obj_pos) i"
      using ipd by (auto simp: bidx_def)
    have d: "bidx (length psr_dir) (bidx (length pd) i) = bidx (length psr_dir) i"
      using lpd ipd by (auto simp: bidx_def blen_def split: if_splits)
    have "rr ! i = (sqrt (sum_axis1 (vsq (obj_pos ! bidx (length obj_pos) i))),
                    (\<lambda>(p, d). sum_axis1 (vmul p d)) (pd ! bidx (length pd) i))"
      using broadcast2_Inr(2)[OF rr i] a b by simp
    moreover have "pd ! bidx (length pd) i =
        (obj_pos ! bidx (length obj_pos) i, psr_dir ! bidx (length psr_dir) i)"
      using broadcast2_Inr(2)[OF pd b] c d by simp
    ultimately show ?thesis
      using i out by (simp add: row_term)
  qed
qed

lemma ss_obj_ok_iff:
  "(\<exists>out. ss_obj_shapiro_delay obj_pos psr_dir T = Inr out) \<longleftrightarrow>
     length obj_pos = length psr_dir \<or> length obj_pos = 1 \<or> length psr_dir = 1"
proof
  assume "\<exists>out. ss_obj_shapiro_delay obj_pos psr_dir T = Inr out"
  then have "\<exists>pd. broadcast2 obj_pos psr_dir = Inr pd"
    by (auto simp: ss_obj_shapiro_delay_def Let_def split: sum.splits)
  then show "length obj_pos = length psr_dir \<or> length obj_pos = 1 \<or> length psr_dir = 1"
    by (simp add: broadcast2_ok_iff)
next
  assume h: "length obj_pos = length psr_dir \<or> length obj_pos = 1 \<or> length psr_dir = 1"
  then obtain pd where pd: "broadcast2 obj_pos psr_dir = Inr pd"
    using broadcast2_ok_iff by blast
  have "length pd = blen (length obj_pos) (length psr_dir)"
    using broadcast2_Inr(1)[OF pd] .
  then have "length obj_pos = length pd \<or> length obj_pos = 1 \<or> length pd = 1"
    using h by (auto simp: blen_def)
  then obtain rr where "broadcast2 (map (\<lambda>p. sqrt (sum_axis1 (vsq p))) obj_pos)
           (map (\<lambda>(p, d). sum_axis1 (vmul p d)) pd) = Inr rr"
    using broadcast2_ok_iff[of "map (\<lambda>p. sqrt (sum_axis1 (vsq p))) obj_pos" "map (\<lambda>(p, d). sum_axis1 (vmul p d)) pd"]
    by auto
  then show "\<exists>out. ss_obj_shapiro_delay obj_pos psr_dir T = Inr out"
    using pd by (simp add: ss_obj_shapiro_delay_def Let_def)
qed

lemma ss_obj_err: "ss_obj_shapiro_delay obj_pos psr_dir T = Inl e \<Longrightarrow> e = ValueError"
  by (auto simp: ss_obj_shapiro_delay_def Let_def split: sum.splits dest: broadcast2_err)

lemma ss_obj_same_length:
  assumes "length obj_pos = length psr_dir"
  shows "ss_obj_shapiro_delay obj_pos psr_dir T =
           Inr (map (\<lambda>(p, d). shapiro_term p d T) (zip obj_pos psr_dir))"
proof -
  obtain out where out: "ss_obj_shapiro_delay obj_pos psr_dir T = Inr out"
    using ss_obj_ok_iff assms by blast
  have l: "length out = length obj_pos"
    using ss_obj_Inr(1)[OF out] assms by (simp add: blen_def)
  have "out = map (\<lambda>(p, d). shapiro_term p d T) (zip obj_pos psr_dir)"
  proof (rule nth_equalityI)
    show "length out = length (map (\<lambda>(p, d). shapiro_term p d T) (zip obj_pos psr_dir))"
      using l assms by simp
  next
    fix i assume i: "i < length out"
    have "bidx (length obj_pos) i = i" "bidx (length psr_dir) i = i"
      using i l assms by (auto simp: bidx_def)
    then show "out ! i = map (\<lambda>(p, d). shapiro_term p d T) (zip obj_pos psr_dir) ! i"
      using ss_obj_Inr(2)[OF out i] i l assms by simp
  qed
  then show ?thesis using out by simp
qed

lemma np_log_pos: "0 < x \<Longrightarrow> np_log x = Fin (ln x)"
  by (simp add: np_log_def)

lemma shapiro_term_finite:
  assumes "px * dx + py * dy + pz * dz < sqrt (px\<^sup>2 + py\<^sup>2 + pz\<^sup>2)"
  shows "shapiro_term (px, py, pz) (dx, dy, dz) T =
           Fin (- 2 * T * ln ((sqrt (px\<^sup>2 + py\<^sup>2 + pz\<^sup>2) - (px * dx + py * dy + pz * dz)) / au))"
proof -
  have "0 < (sqrt (px\<^sup>2 + py\<^sup>2 + pz\<^sup>2) - (px * dx + py * dy + pz * dz)) / au"
    using assms au_pos by simp
  then show ?thesis by (simp add: np_log_pos)
qed

text \<open>
  C1. With one direction vector per position vector, \<open>ss_obj_shapiro_delay\<close> returns for
  every observation \<open>-2 T_obj log ((r - rcostheta) / au)\<close>, where \<open>r\<close> is the Euclidean
  norm of the position vector and \<open>rcostheta\<close> its dot product with the direction; the
  leading factor \<open>-2 T_obj\<close> is negative for a positive mass. For one observation with
  \<open>rcostheta < r\<close> the result is the real number \<open>-2 T_obj ln ((r - rcostheta) / au)\<close>.
\<close>

theorem ss_obj_shapiro_delay_formula:
  "(length obj_pos = length psr_dir \<longrightarrow>
     ss_obj_shapiro_delay obj_pos psr_dir T_obj =
       Inr (map (\<lambda>((px, py, pz), (dx, dy, dz)).
               np_scale (- 2 * T_obj)
                 (np_log ((sqrt (px\<^sup>2 + py\<^sup>2 + pz\<^sup>2) - (px * dx + py * dy + pz * dz)) / au)))
             (zip obj_pos psr_dir)))
   \<and> (px * dx + py * dy + pz * dz < sqrt (px\<^sup>2 + py\<^sup>2 + pz\<^sup>2) \<longrightarrow>
        ss_obj_shapiro_delay [(px, py, pz)] [(dx, dy, dz)] T_obj =
          Inr [Fin (- 2 * T_obj *
                 ln ((sqrt (px\<^sup>2 + py\<^sup>2 + pz\<^sup>2) - (px * dx + py * dy + pz * dz)) / au))])"
proof (intro conjI impI)
  assume "length obj_pos = length psr_dir"
  then show "ss_obj_shapiro_delay obj_pos psr_dir T_obj =
       Inr (map (\<lambda>((px, py, pz), (dx, dy, dz)).
               np_scale (- 2 * T_obj)
                 (np_log ((sqrt (px\<^sup>2 + py\<^sup>2 + pz\<^sup>2) - (px * dx + py * dy + pz * dz)) / au)))
             (zip obj_pos psr_dir))"
    by (simp add: ss_obj_same_length split_def) (auto intro!: map_cong simp: split_def)
next
  assume "px * dx + py * dy + pz * dz < sqrt (px\<^sup>2 + py\<^sup>2 + pz\<^sup>2)"
  then show "ss_obj_shapiro_delay [(px, py, pz)] [(dx, dy, dz)] T_obj =
          Inr [Fin (- 2 * T_obj *
                 ln ((sqrt (px\<^sup>2 + py\<^sup>2 + pz\<^sup>2) - (px * dx + py * dy + pz * dz)) / au))]"
    using shapiro_term_finite[of px dx py dy pz dz T_obj]
    by (simp add: ss_obj_same_length del: shapiro_term.simps)
qed

lemma sqrt_e_au: "sqrt (0\<^sup>2 + (exp 1 * au)\<^sup>2 + 0\<^sup>2) = exp 1 * au"
  using au_pos by (simp add: real_sqrt_mult)

text \<open>
  With a mass of zero the delay is zero for the logarithm arguments \<open>1\<close> and \<open>2\<close> alike.
\<close>

lemma zero_mass_delay:
  "0 < light_path (0, 1, 0) (1, 0, 0)
   \<and> light_path (0, 1, 0) (1, 0, 0) < light_path (- 1, 0, 0) (1, 0, 0)
   \<and> light_path (- 1, 0, 0) (1, 0, 0) \<le> au
   \<and> ss_obj_shapiro_delay [(0, 1, 0)] [(1, 0, 0)] 0 = Inr [Fin 0]
   \<and> ss_obj_shapiro_delay [(- 1, 0, 0)] [(1, 0, 0)] 0 = Inr [Fin 0]"
  by (simp add: ss_obj_same_length np_log_def light_path_def au_def)

lemma ln_magnitude_mono:
  assumes "0 < x1" "x1 < x2" "x2 \<le> au" "T \<noteq> 0"
  shows "\<bar>- 2 * T * ln (x2 / au)\<bar> < \<bar>- 2 * T * ln (x1 / au)\<bar>"
proof -
  have a: "x1 / au < x2 / au" "0 < x1 / au" "x2 / au \<le> 1"
    using assms au_pos by (simp_all add: divide_strict_right_mono)
  have "ln (x1 / au) < ln (x2 / au)" using a by simp
  moreover have "ln (x2 / au) \<le> 0" using a assms au_pos by simp
  ultimately have "\<bar>ln (x2 / au)\<bar> < \<bar>ln (x1 / au)\<bar>" by simp
  then have "\<bar>2 * T\<bar> * \<bar>ln (x2 / au)\<bar> < \<bar>2 * T\<bar> * \<bar>ln (x1 / au)\<bar>"
    using assms(4) by simp
  then show ?thesis by (simp add: abs_mult)
qed

lemma shapiro_term_light_path:
  "0 < light_path p d \<Longrightarrow> shapiro_term p d T = Fin (- 2 * T * ln (light_path p d / au))"
  by (cases p; cases d) (use au_pos in \<open>simp add: light_path_def np_log_def\<close>)

text \<open>
  The formula over the reals, without the rounding, the cancellation and the overflow of
  the floating-point computation: when the norm of the position exceeds its dot product
  with the direction the value is a finite number, and for a mass other than zero and
  arguments \<open>0 < x1 < x2 \<le> au\<close> it is strictly larger in magnitude at \<open>x1\<close>.
\<close>

lemma real_formula_monotone:
  "(0 < light_path p d \<longrightarrow>
      0 < light_path p d / au
      \<and> ss_obj_shapiro_delay [p] [d] T = Inr [Fin (- 2 * T * ln (light_path p d / au))])
   \<and> (T \<noteq> 0 \<and> 0 < light_path p1 d1 \<and> light_path p1 d1 < light_path p2 d2 \<and> light_path p2 d2 \<le> au \<longrightarrow>
        (\<exists>a b. ss_obj_shapiro_delay [p1] [d1] T = Inr [Fin a]
              \<and> ss_obj_shapiro_delay [p2] [d2] T = Inr [Fin b]
              \<and> \<bar>b\<bar> < \<bar>a\<bar>))"
proof (intro conjI impI)
  assume "0 < light_path p d"
  then show "0 < light_path p d / au" using au_pos by simp
next
  assume "0 < light_path p d"
  then show "ss_obj_shapiro_delay [p] [d] T = Inr [Fin (- 2 * T * ln (light_path p d / au))]"
    by (simp add: ss_obj_same_length shapiro_term_light_path)
next
  assume h: "T \<noteq> 0 \<and> 0 < light_path p1 d1 \<and> light_path p1 d1 < light_path p2 d2 \<and> light_path p2 d2 \<le> au"
  then have 1: "ss_obj_shapiro_delay [p1] [d1] T = Inr [Fin (- 2 * T * ln (light_path p1 d1 / au))]"
    by (simp add: ss_obj_same_length shapiro_term_light_path)
  from h have 2: "ss_obj_shapiro_delay [p2] [d2] T = Inr [Fin (- 2 * T * ln (light_path p2 d2 / au))]"
    by (simp add: ss_obj_same_length shapiro_term_light_path)
  from h have 3: "\<bar>- 2 * T * ln (light_path p2 d2 / au)\<bar> < \<bar>- 2 * T * ln (light_path p1 d1 / au)\<bar>"
    by (intro ln_magnitude_mono) simp_all
  show "\<exists>a b. ss_obj_shapiro_delay [p1] [d1] T = Inr [Fin a]
              \<and> ss_obj_shapiro_delay [p2] [d2] T = Inr [Fin b]
              \<and> \<bar>b\<bar> < \<bar>a\<bar>"
    using 1 2 3 by blast
qed

section \<open>Accumulation into the slice of a group\<close>

lemma nth_slice:
  assumes "lo \<le> i" "i < hi" "i < length xs"
  shows "take (hi - lo) (drop lo xs) ! (i - lo) = xs ! i"
proof -
  have "i - lo < hi - lo" using assms by linarith
  then have "take (hi - lo) (drop lo xs) ! (i - lo) = drop lo xs ! (i - lo)" by simp
  also have "\<dots> = xs ! (lo + (i - lo))" using assms by simp
  finally show ?thesis using assms by simp
qed

lemma length_slice_gt:
  assumes "lo \<le> i" "i < hi" "i < length xs"
  shows "i - lo < length (take (hi - lo) (drop lo xs))"
  using assms by simp linarith

lemma slice_iadd_Inr:
  assumes "slice_iadd delay lo hi x = Inr delay'"
  shows "length delay' = length delay"
    and "i < length delay \<Longrightarrow>
           delay' ! i = (if lo \<le> i \<and> i < hi
                         then np_add (delay ! i) (x ! bidx (length x) (i - lo))
                         else delay ! i)"
    and "length x = length (take (hi - lo) (drop lo delay)) \<or> length x = 1"
proof -
  define seg where "seg = take (hi - lo) (drop lo delay)"
  from assms obtain sx where
    sx: "broadcast2 seg x = Inr sx" and lsx: "length sx = length seg" and
    d': "delay' = take lo delay @ map (\<lambda>(a, b). np_add a b) sx @ drop (lo + length seg) delay"
    by (auto simp: slice_iadd_def Let_def seg_def split: sum.splits if_splits)
  have lseg: "length seg = min (hi - lo) (length delay - lo)"
    by (simp add: seg_def)
  show "length delay' = length delay"
    unfolding d' using lsx lseg by (simp add: min_def) linarith
  show "length x = length (take (hi - lo) (drop lo delay)) \<or> length x = 1"
    using sx lsx unfolding seg_def[symmetric]
    by (auto simp: broadcast2_def split: if_splits)
  show "delay' ! i = (if lo \<le> i \<and> i < hi
                         then np_add (delay ! i) (x ! bidx (length x) (i - lo))
                         else delay ! i)" if i: "i < length delay"
  proof -
    consider "i < lo" | "lo \<le> i" "i < lo + length seg" | "lo + length seg \<le> i"
      by linarith
    then show ?thesis
    proof cases
      case 1
      then show ?thesis unfolding d' using i by (simp add: nth_append)
    next
      case 2
      then have j: "i - lo < length sx" using lsx by simp
      have "sx ! (i - lo) = (seg ! bidx (length seg) (i - lo), x ! bidx (length x) (i - lo))"
        using broadcast2_Inr(2)[OF sx j] .
      moreover have "bidx (length seg) (i - lo) = i - lo"
        using j lsx by (auto simp: bidx_def)
      moreover have ihi: "i < hi" using 2 lseg by simp
      moreover have "seg ! (i - lo) = delay ! i"
        unfolding seg_def using 2(1) ihi i by (rule nth_slice)
      moreover have "delay' ! i = (\<lambda>(a, b). np_add a b) (sx ! (i - lo))"
        unfolding d' using 2 i j lsx by (simp add: nth_append min_def)
      ultimately show ?thesis using 2 by simp
    next
      case 3
      then have "hi \<le> i \<or> i < lo" using i lseg by (auto simp: min_def split: if_splits)
      moreover have "delay' ! i = delay ! i"
        unfolding d' using 3 i lsx lseg by (auto simp: nth_append min_def)
      ultimately show ?thesis by auto
    qed
  qed
qed

lemma add_obj_delay_Inr:
  assumes "add_obj_delay self names grp psr_dir lo hi pl delay = Inr delay'"
  shows "pos_column pl \<in> set names"
    and "\<exists>x. ss_obj_shapiro_delay (map (\<lambda>r. cells r (pos_column pl)) grp) psr_dir
                (mass_of (ss_masses self) pl) = Inr x
              \<and> slice_iadd delay lo hi x = Inr delay'"
  using assms
  by (auto simp: add_obj_delay_def table_getitem_def dict_getitem_def mass_of_def pos_column_def
        split: sum.splits if_splits option.splits)

lemma add_obj_delay_point:
  assumes ok: "add_obj_delay self names (take (hi - lo) (drop lo rws)) psr_dir lo hi pl delay = Inr delay'"
    and len: "length delay = length rws"
  shows "length delay' = length delay"
    and "i < length delay \<Longrightarrow>
           delay' ! i = (if lo \<le> i \<and> i < hi
                         then np_add (delay ! i) (obj_term self rws psr_dir lo i pl)
                         else delay ! i)"
proof -
  define grp where "grp = take (hi - lo) (drop lo rws)"
  define L where "L = length grp"
  from add_obj_delay_Inr(2)[OF ok] obtain x where
    x: "ss_obj_shapiro_delay (map (\<lambda>r. cells r (pos_column pl)) grp) psr_dir
          (mass_of (ss_masses self) pl) = Inr x" and
    s: "slice_iadd delay lo hi x = Inr delay'"
    unfolding grp_def by blast
  show "length delay' = length delay" using slice_iadd_Inr(1)[OF s] .
  have lseg: "length (take (hi - lo) (drop lo delay)) = L"
    by (simp add: L_def grp_def len)
  have lx: "length x = blen L (length psr_dir)"
    using ss_obj_Inr(1)[OF x] by (simp add: L_def)
  have lx': "length x = L"
    using slice_iadd_Inr(3)[OF s] lseg lx by (auto simp: blen_def split: if_splits)
  show "delay' ! i = (if lo \<le> i \<and> i < hi
                         then np_add (delay ! i) (obj_term self rws psr_dir lo i pl)
                         else delay ! i)" if i: "i < length delay"
  proof (cases "lo \<le> i \<and> i < hi")
    case False
    then show ?thesis using slice_iadd_Inr(2)[OF s i] by auto
  next
    case True
    define j where "j = i - lo"
    have jL: "j < L" unfolding j_def L_def grp_def
      using True i len by (intro length_slice_gt) simp_all
    have jx: "j < length x" using jL lx' by simp
    have b1: "bidx (length x) j = j" using jx by (auto simp: bidx_def)
    have b2: "bidx L j = j" using jL by (auto simp: bidx_def)
    have "x ! j = shapiro_term (map (\<lambda>r. cells r (pos_column pl)) grp ! bidx L j)
                    (psr_dir ! bidx (length psr_dir) j) (mass_of (ss_masses self) pl)"
      using ss_obj_Inr(2)[OF x jx] by (simp add: L_def)
    moreover have "grp ! j = rws ! i"
      unfolding grp_def j_def using True i len by (intro nth_slice) simp_all
    ultimately have "x ! j = obj_term self rws psr_dir lo i pl"
      using b2 jL by (simp add: obj_term_def j_def L_def)
    then show ?thesis
      using slice_iadd_Inr(2)[OF s i] True b1 by (simp add: j_def)
  qed
qed

lemma planets_loop_point:
  assumes "planets_loop self names (take (hi - lo) (drop lo rws)) psr_dir lo hi pls delay = Inr delay'"
    and "length delay = length rws"
  shows "length delay' = length delay
         \<and> (\<forall>i<length delay.
               delay' ! i = (if lo \<le> i \<and> i < hi
                             then foldl np_add (delay ! i)
                                    (map (obj_term self rws psr_dir lo i) pls)
                             else delay ! i))"
  using assms
proof (induction pls arbitrary: delay)
  case Nil
  then show ?case by simp
next
  case (Cons pl pls)
  from Cons.prems(1) obtain d1 where
    d1: "add_obj_delay self names (take (hi - lo) (drop lo rws)) psr_dir lo hi pl delay = Inr d1" and
    rest: "planets_loop self names (take (hi - lo) (drop lo rws)) psr_dir lo hi pls d1 = Inr delay'"
    by (auto split: sum.splits)
  have l1: "length d1 = length delay"
    using add_obj_delay_point(1)[OF d1 Cons.prems(2)] .
  have p1: "\<And>i. i < length delay \<Longrightarrow>
           d1 ! i = (if lo \<le> i \<and> i < hi
                         then np_add (delay ! i) (obj_term self rws psr_dir lo i pl)
                         else delay ! i)"
    using add_obj_delay_point(2)[OF d1 Cons.prems(2)] .
  have ih: "length delay' = length d1
         \<and> (\<forall>i<length d1.
               delay' ! i = (if lo \<le> i \<and> i < hi
                             then foldl np_add (d1 ! i)
                                    (map (obj_term self rws psr_dir lo i) pls)
                             else d1 ! i))"
    using Cons.IH[OF rest] l1 Cons.prems(2) by simp
  show ?case using ih l1 p1 by simp
qed

section \<open>The loop over the groups\<close>

lemma indices_pair_ok:
  assumes "ii + 1 < length (group_indices toas)"
  shows "indices_pair toas ii = Inr (group_indices toas ! ii, group_indices toas ! (ii + 1))"
proof -
  let ?ind = "group_indices toas"
  have "drop ii ?ind = ?ind ! ii # drop (Suc ii) ?ind"
    using assms by (simp add: Cons_nth_drop_Suc)
  moreover have "drop (Suc ii) ?ind = ?ind ! (Suc ii) # drop (Suc (Suc ii)) ?ind"
    using assms by (simp add: Cons_nth_drop_Suc)
  ultimately have "take 2 (drop ii ?ind) = [?ind ! ii, ?ind ! (ii + 1)]"
    by (simp add: numeral_2_eq_2)
  then show ?thesis by (simp add: indices_pair_def)
qed

lemma group_body_Inr_index:
  assumes "fst (group_body self toas ii key delay lg) = Inr d"
  shows "ii + 1 < length (group_indices toas)"
  using assms by (auto simp: group_body_def groups_getitem_def split: if_splits)

lemma group_body_barycenter:
  assumes "ii + 1 < length (group_indices toas)"
  shows "group_body self toas ii ''Barycenter'' delay lg = (Inr delay, lg @ [skip_message])"
  using assms by (simp add: group_body_def groups_getitem_def indices_pair_ok)

lemma group_body_log:
  "snd (group_body self toas ii key delay lg) = lg
   \<or> (key = ''Barycenter'' \<and> group_body self toas ii key delay lg = (Inr delay, lg @ [skip_message]))"
  by (auto simp: group_body_def split: sum.splits prod.splits)

lemma group_body_fst:
  "fst (group_body self toas ii key delay lg1) = fst (group_body self toas ii key delay lg2)"
  by (simp add: group_body_def split: sum.splits prod.splits)

lemma group_body_nonbary:
  assumes key: "key \<noteq> ''Barycenter''"
    and ok: "group_body self toas ii key delay lg = (Inr delay', lg')"
    and len: "length delay = length (rows toas)"
  shows "lg' = lg"
    and "length delay' = length delay"
    and "\<exists>psr_dir. ssb_to_psb_xyz self (map tdbld (group_rows toas ii)) = Inr psr_dir
           \<and> (\<forall>i<length delay.
                 delay' ! i =
                   (if in_group toas ii i
                    then foldl np_add (delay ! i)
                           (map (obj_term self (rows toas) psr_dir (group_indices toas ! ii) i)
                              (bodies (PLANET_SHAPIRO self)))
                    else delay ! i))"
proof -
  let ?lo = "group_indices toas ! ii" and ?hi = "group_indices toas ! Suc ii"
  have idx: "ii + 1 < length (group_indices toas)"
    using ok group_body_Inr_index[of self toas ii key delay lg delay'] by simp
  have gi: "groups_getitem toas ii = Inr (group_rows toas ii)"
    using idx by (simp add: groups_getitem_def group_rows_def)
  note ip = indices_pair_ok[OF idx]
  from ok key gi ip show "lg' = lg"
    by (simp add: group_body_def)
  from ok key gi ip obtain psr_dir d1 where
    pd: "ssb_to_psb_xyz self (map tdbld (group_rows toas ii)) = Inr psr_dir" and
    d1: "add_obj_delay self (colnames toas) (group_rows toas ii) psr_dir ?lo ?hi ''sun'' delay = Inr d1" and
    fin: "PLANET_SHAPIRO self \<Longrightarrow>
            planets_loop self (colnames toas) (group_rows toas ii) psr_dir ?lo ?hi
                  [''jupiter'', ''saturn'', ''venus'', ''uranus''] d1 = Inr delay'"
         "\<not> PLANET_SHAPIRO self \<Longrightarrow> d1 = delay'"
    by (auto simp: group_body_def group_delay_def split: sum.splits if_splits)
  have gr: "group_rows toas ii = take (?hi - ?lo) (drop ?lo (rows toas))"
    by (simp add: group_rows_def)
  have l1: "length d1 = length delay"
    using add_obj_delay_point(1)[OF d1[unfolded gr] len] .
  have p1: "\<And>i. i < length delay \<Longrightarrow>
           d1 ! i = (if ?lo \<le> i \<and> i < ?hi
                     then np_add (delay ! i) (obj_term self (rows toas) psr_dir ?lo i ''sun'')
                     else delay ! i)"
    using add_obj_delay_point(2)[OF d1[unfolded gr] len] .
  show "length delay' = length delay"
  proof (cases "PLANET_SHAPIRO self")
    case True
    then show ?thesis
      using planets_loop_point[OF fin(1)[unfolded gr]] l1 len by simp
  next
    case False
    then show ?thesis using fin l1 by simp
  qed
  have "\<forall>i<length delay.
                 delay' ! i =
                   (if in_group toas ii i
                    then foldl np_add (delay ! i)
                           (map (obj_term self (rows toas) psr_dir ?lo i)
                              (bodies (PLANET_SHAPIRO self)))
                    else delay ! i)"
  proof (cases "PLANET_SHAPIRO self")
    case True
    then have "planets_loop self (colnames toas) (take (?hi - ?lo) (drop ?lo (rows toas))) psr_dir
                 ?lo ?hi [''jupiter'', ''saturn'', ''venus'', ''uranus''] d1 = Inr delay'"
      using fin(1)[unfolded gr] by simp
    from planets_loop_point[OF this] l1 len
    have "\<forall>i<length d1.
               delay' ! i = (if ?lo \<le> i \<and> i < ?hi
                             then foldl np_add (d1 ! i)
                                    (map (obj_term self (rows toas) psr_dir ?lo i)
                                       [''jupiter'', ''saturn'', ''venus'', ''uranus''])
                             else d1 ! i)"
      by simp
    then show ?thesis using True l1 p1 by (simp add: bodies_def in_group_def)
  next
    case False
    then show ?thesis using fin p1 by (simp add: bodies_def in_group_def)
  qed
  then show "\<exists>psr_dir. ssb_to_psb_xyz self (map tdbld (group_rows toas ii)) = Inr psr_dir
           \<and> (\<forall>i<length delay.
                 delay' ! i =
                   (if in_group toas ii i
                    then foldl np_add (delay ! i)
                           (map (obj_term self (rows toas) psr_dir (group_indices toas ! ii) i)
                              (bodies (PLANET_SHAPIRO self)))
                    else delay ! i))"
    using pd by blast
qed

lemma group_body_outside:
  assumes ok: "group_body self toas ii key delay lg = (Inr delay', lg')"
    and len: "length delay = length (rows toas)"
    and out: "key = ''Barycenter'' \<or> \<not> in_group toas ii i"
    and i: "i < length delay"
  shows "delay' ! i = delay ! i"
proof (cases "key = ''Barycenter''")
  case True
  have "ii + 1 < length (group_indices toas)"
    using ok group_body_Inr_index[of self toas ii key delay lg delay'] by simp
  then show ?thesis using ok True by (simp add: group_body_barycenter)
next
  case False
  then show ?thesis
    using group_body_nonbary(3)[OF False ok len] out i by auto
qed

lemma group_body_length:
  assumes ok: "group_body self toas ii key delay lg = (Inr delay', lg')"
    and len: "length delay = length (rows toas)"
  shows "length delay' = length delay"
proof (cases "key = ''Barycenter''")
  case True
  have "ii + 1 < length (group_indices toas)"
    using ok group_body_Inr_index[of self toas ii key delay lg delay'] by simp
  then show ?thesis using ok True by (simp add: group_body_barycenter)
next
  case False
  then show ?thesis by (rule group_body_nonbary(2)[OF _ ok len])
qed

lemma groups_loop_length:
  assumes "groups_loop self toas ks delay lg = (Inr d, lg')"
    and "length delay = length (rows toas)"
  shows "length d = length (rows toas)"
  using assms
proof (induction ks arbitrary: delay lg)
  case Nil
  then show ?case by simp
next
  case (Cons k ks)
  obtain ii key where k: "k = (ii, key)" by (cases k)
  from Cons.prems(1) obtain d1 lg1 where
    b: "group_body self toas ii key delay lg = (Inr d1, lg1)" and
    r: "groups_loop self toas ks d1 lg1 = (Inr d, lg')"
    unfolding k by (auto split: prod.splits sum.splits)
  have "length d1 = length (rows toas)"
    using group_body_length[OF b Cons.prems(2)] Cons.prems(2) by simp
  then show ?case using Cons.IH[OF r] by simp
qed

lemma groups_loop_outside:
  assumes "groups_loop self toas ks delay lg = (Inr d, lg')"
    and "length delay = length (rows toas)"
    and "\<forall>(jj, key) \<in> set ks. key = ''Barycenter'' \<or> \<not> in_group toas jj i"
    and "i < length delay"
  shows "d ! i = delay ! i"
  using assms
proof (induction ks arbitrary: delay lg)
  case Nil
  then show ?case by simp
next
  case (Cons k ks)
  obtain ii key where k: "k = (ii, key)" by (cases k)
  from Cons.prems(1) obtain d1 lg1 where
    b: "group_body self toas ii key delay lg = (Inr d1, lg1)" and
    r: "groups_loop self toas ks d1 lg1 = (Inr d, lg')"
    unfolding k by (auto split: prod.splits sum.splits)
  have l1: "length d1 = length delay"
    using group_body_length[OF b Cons.prems(2)] .
  have "d1 ! i = delay ! i"
    using group_body_outside[OF b Cons.prems(2) _ Cons.prems(4)] Cons.prems(3) k by auto
  moreover have "d ! i = d1 ! i"
    using Cons.IH[OF r] l1 Cons.prems by simp
  ultimately show ?case by simp
qed

lemma groups_loop_inside:
  assumes "groups_loop self toas ks delay lg = (Inr d, lg')"
    and "length delay = length (rows toas)"
    and "(ii, key) \<in> set ks"
    and "key \<noteq> ''Barycenter''"
    and "in_group toas ii i"
    and "\<forall>(jj, k) \<in> set ks. jj \<noteq> ii \<longrightarrow> \<not> in_group toas jj i"
    and "distinct (map fst ks)"
    and "i < length delay"
  shows "\<exists>psr_dir. ssb_to_psb_xyz self (map tdbld (group_rows toas ii)) = Inr psr_dir
           \<and> d ! i = foldl np_add (delay ! i)
                        (map (obj_term self (rows toas) psr_dir (group_indices toas ! ii) i)
                           (bodies (PLANET_SHAPIRO self)))"
  using assms
proof (induction ks arbitrary: delay lg)
  case Nil
  then show ?case by simp
next
  case (Cons k ks)
  obtain jj kk where k: "k = (jj, kk)" by (cases k)
  from Cons.prems(1) obtain d1 lg1 where
    b: "group_body self toas jj kk delay lg = (Inr d1, lg1)" and
    r: "groups_loop self toas ks d1 lg1 = (Inr d, lg')"
    unfolding k by (auto split: prod.splits sum.splits)
  have l1: "length d1 = length delay"
    using group_body_length[OF b Cons.prems(2)] .
  show ?case
  proof (cases "jj = ii")
    case True
    have kk: "kk = key"
      using Cons.prems(3,7) True k by (auto simp: image_iff)
    have notin: "\<forall>(j, k') \<in> set ks. j \<noteq> ii"
      using Cons.prems(7) True k by (auto simp: image_iff)
    have rest: "d ! i = d1 ! i"
    proof (rule groups_loop_outside[OF r])
      show "length d1 = length (rows toas)" using l1 Cons.prems(2) by simp
      show "\<forall>(jj, key)\<in>set ks. key = ''Barycenter'' \<or> \<not> in_group toas jj i"
        using Cons.prems(6) notin by auto
      show "i < length d1" using l1 Cons.prems(8) by simp
    qed
    from group_body_nonbary(3)[OF Cons.prems(4) b[unfolded True kk] Cons.prems(2)]
    obtain psr_dir where
      "ssb_to_psb_xyz self (map tdbld (group_rows toas ii)) = Inr psr_dir"
      "d1 ! i = foldl np_add (delay ! i)
                  (map (obj_term self (rows toas) psr_dir (group_indices toas ! ii) i)
                     (bodies (PLANET_SHAPIRO self)))"
      using Cons.prems(5,8) by auto
    then show ?thesis using rest by auto
  next
    case False
    have "d1 ! i = delay ! i"
      using group_body_outside[OF b Cons.prems(2) _ Cons.prems(8)] Cons.prems(6) False k by auto
    moreover have "\<exists>psr_dir. ssb_to_psb_xyz self (map tdbld (group_rows toas ii)) = Inr psr_dir
           \<and> d ! i = foldl np_add (d1 ! i)
                        (map (obj_term self (rows toas) psr_dir (group_indices toas ! ii) i)
                           (bodies (PLANET_SHAPIRO self)))"
    proof (rule Cons.IH[OF r])
      show "length d1 = length (rows toas)" using l1 Cons.prems(2) by simp
      show "(ii, key) \<in> set ks" using Cons.prems(3) False k by auto
      show "key \<noteq> ''Barycenter''" by fact
      show "in_group toas ii i" by fact
      show "\<forall>(jj, k)\<in>set ks. jj \<noteq> ii \<longrightarrow> \<not> in_group toas jj i" using Cons.prems(6) by auto
      show "distinct (map fst ks)" using Cons.prems(7) by simp
      show "i < length d1" using l1 Cons.prems(8) by simp
    qed
    ultimately show ?thesis by simp
  qed
qed

lemma groups_loop_index:
  assumes "groups_loop self toas ks delay lg = (Inr d, lg')"
  shows "\<forall>(jj, k) \<in> set ks. jj + 1 < length (group_indices toas)"
  using assms
proof (induction ks arbitrary: delay lg)
  case Nil
  then show ?case by simp
next
  case (Cons k ks)
  obtain ii key where k: "k = (ii, key)" by (cases k)
  from Cons.prems(1) obtain d1 lg1 where
    b: "group_body self toas ii key delay lg = (Inr d1, lg1)" and
    r: "groups_loop self toas ks d1 lg1 = (Inr d, lg')"
    unfolding k by (auto split: prod.splits sum.splits)
  have "ii + 1 < length (group_indices toas)"
    using group_body_Inr_index[of self toas ii key delay lg d1] b by simp
  then show ?case using Cons.IH[OF r] k by simp
qed

lemma groups_loop_log:
  assumes "groups_loop self toas ks delay lg = (Inr d, lg')"
  shows "lg' = lg @ replicate (length (filter (\<lambda>k. snd k = ''Barycenter'') ks)) skip_message"
  using assms
proof (induction ks arbitrary: delay lg)
  case Nil
  then show ?case by simp
next
  case (Cons k ks)
  obtain ii key where k: "k = (ii, key)" by (cases k)
  from Cons.prems(1) obtain d1 lg1 where
    b: "group_body self toas ii key delay lg = (Inr d1, lg1)" and
    r: "groups_loop self toas ks d1 lg1 = (Inr d, lg')"
    unfolding k by (auto split: prod.splits sum.splits)
  have "lg1 = (if key = ''Barycenter'' then lg @ [skip_message] else lg)"
  proof (cases "key = ''Barycenter''")
    case True
    have "ii + 1 < length (group_indices toas)"
      using group_body_Inr_index[of self toas ii key delay lg d1] b by simp
    then show ?thesis using b True by (simp add: group_body_barycenter)
  next
    case False
    then show ?thesis using group_body_log[of self toas ii key delay lg] b by auto
  qed
  then show ?case using Cons.IH[OF r] k by (simp add: replicate_app_Cons_same)
qed

lemma disjoint_groups:
  assumes "sorted ind" "ii + 1 < length ind" "jj + 1 < length ind" "jj \<noteq> ii"
    and "ind ! ii \<le> i" "i < ind ! (ii + 1)"
  shows "\<not> (ind ! jj \<le> i \<and> i < ind ! (jj + 1))"
proof (cases "jj < ii")
  case True
  then have "ind ! (jj + 1) \<le> ind ! ii"
    using assms(1,2) by (intro sorted_nth_mono) simp_all
  then show ?thesis using assms(5) by auto
next
  case False
  then have "ind ! (ii + 1) \<le> ind ! jj"
    using assms(1,3,4) by (intro sorted_nth_mono) simp_all
  then show ?thesis using assms(6) by auto
qed

lemma enumerate_keys_mem:
  "ii < length ks \<Longrightarrow> (ii, ks ! ii) \<in> set (enumerate 0 ks)"
  by (simp add: in_set_enumerate_eq)

lemma enumerate_keys_snd:
  "(jj, k) \<in> set (enumerate 0 ks) \<Longrightarrow> k = ks ! jj \<and> jj < length ks"
  by (auto simp: in_set_enumerate_eq)

lemma count_enumerate:
  "length (filter (\<lambda>k. snd k = b) (enumerate n ks)) = length (filter (\<lambda>k. k = b) ks)"
proof -
  have "length (filter (\<lambda>k. k = b) (map snd (enumerate n ks))) =
        length (filter ((\<lambda>k. k = b) \<circ> snd) (enumerate n ks))"
    by (rule length_filter_map)
  then show ?thesis by (simp add: comp_def)
qed

text \<open>
  C3. In a batch whose group indices are sorted, when the call returns a delay vector,
  every observation in the index range of a group with key \<open>Barycenter\<close> has delay
  exactly zero, whatever the rows of the table hold. The body of the loop for such a
  group returns the delay array unchanged and appends the informational message to the
  log: it raises nothing. The log of the call grows by one message per barycentric group.
\<close>

theorem barycenter_skip:
  assumes "sorted (group_indices toas)"
    and "solar_system_shapiro_delay self toas lg = (Inr d, lg')"
    and "ii < length (group_keys toas)"
    and "group_keys toas ! ii = ''Barycenter''"
    and "group_indices toas ! ii \<le> i" and "i < group_indices toas ! (ii + 1)"
    and "i < length (rows toas)"
  shows "d ! i = Fin 0
         \<and> group_body self toas ii ''Barycenter'' delay0 lg0 = (Inr delay0, lg0 @ [skip_message])
         \<and> lg' = lg @ replicate (length (filter (\<lambda>k. k = ''Barycenter'') (group_keys toas)))
                        skip_message
         \<and> skip_message \<in> set lg'"
proof -
  let ?ks = "enumerate 0 (group_keys toas)"
  let ?z = "replicate (length (rows toas)) (Fin 0)"
  have loop: "groups_loop self toas ?ks ?z lg = (Inr d, lg')"
    using assms(2) by (simp add: solar_system_shapiro_delay_def)
  note idx = groups_loop_index[OF loop]
  have mem: "(ii, ''Barycenter'') \<in> set ?ks"
    using enumerate_keys_mem[OF assms(3)] assms(4) by simp
  then have ii: "ii + 1 < length (group_indices toas)" using idx by auto
  have out: "\<forall>(jj, key) \<in> set ?ks. key = ''Barycenter'' \<or> \<not> in_group toas jj i"
  proof -
    have "key = ''Barycenter''" if jk: "(jj, key) \<in> set ?ks" and ing: "in_group toas jj i"
      for jj key
    proof -
      have jj: "jj + 1 < length (group_indices toas)" using idx jk by auto
      have "jj = ii"
        using disjoint_groups[OF assms(1) ii jj _ assms(5,6)] ing
        by (auto simp: in_group_def)
      then show ?thesis
        using enumerate_keys_snd[OF jk] assms(4) by simp
    qed
    then show ?thesis by auto
  qed
  have "d ! i = ?z ! i"
    using groups_loop_outside[OF loop _ out] assms(7) by simp
  then have 1: "d ! i = Fin 0" using assms(7) by simp
  have 2: "group_body self toas ii ''Barycenter'' delay0 lg0 = (Inr delay0, lg0 @ [skip_message])"
    using group_body_barycenter[OF ii] .
  have 3: "lg' = lg @ replicate (length (filter (\<lambda>k. k = ''Barycenter'') (group_keys toas)))
                        skip_message"
    using groups_loop_log[OF loop] by (simp add: count_enumerate)
  have "''Barycenter'' \<in> set (filter (\<lambda>k. k = ''Barycenter'') (group_keys toas))"
    using assms(3,4) by (auto simp: in_set_conv_nth)
  then have "0 < length (filter (\<lambda>k. k = ''Barycenter'') (group_keys toas))"
    by (metis length_pos_if_in_set)
  then have 4: "skip_message \<in> set lg'" using 3 by simp
  show ?thesis using 1 2 3 4 by blast
qed

lemma toggle_point:
  assumes "sorted (group_indices toas)"
    and "solar_system_shapiro_delay self toas lg = (Inr d, lg')"
    and "ii < length (group_keys toas)"
    and "group_keys toas ! ii \<noteq> ''Barycenter''"
    and "group_indices toas ! ii \<le> i" and "i < group_indices toas ! (ii + 1)"
    and "i < length (rows toas)"
  shows "\<exists>psr_dir. ssb_to_psb_xyz self (map tdbld (group_rows toas ii)) = Inr psr_dir
           \<and> d ! i = foldl np_add (Fin 0)
                        (map (obj_term self (rows toas) psr_dir (group_indices toas ! ii) i)
                           (bodies (PLANET_SHAPIRO self)))"
proof -
  let ?ks = "enumerate 0 (group_keys toas)"
  let ?z = "replicate (length (rows toas)) (Fin 0)"
  have loop: "groups_loop self toas ?ks ?z lg = (Inr d, lg')"
    using assms(2) by (simp add: solar_system_shapiro_delay_def)
  note idx = groups_loop_index[OF loop]
  have mem: "(ii, group_keys toas ! ii) \<in> set ?ks"
    using enumerate_keys_mem[OF assms(3)] .
  then have ii: "ii + 1 < length (group_indices toas)" using idx by auto
  have others: "\<forall>(jj, k) \<in> set ?ks. jj \<noteq> ii \<longrightarrow> \<not> in_group toas jj i"
  proof -
    have False if jk: "(jj, k) \<in> set ?ks" and ne: "jj \<noteq> ii" and ing: "in_group toas jj i"
      for jj k
    proof -
      have jj: "jj + 1 < length (group_indices toas)" using idx jk by auto
      show False
        using disjoint_groups[OF assms(1) ii jj ne assms(5,6)] ing
        by (auto simp: in_group_def)
    qed
    then show ?thesis by auto
  qed
  have dist: "distinct (map fst ?ks)" by simp
  have ing: "in_group toas ii i" using assms(5,6) by (simp add: in_group_def)
  have "\<exists>psr_dir. ssb_to_psb_xyz self (map tdbld (group_rows toas ii)) = Inr psr_dir
           \<and> d ! i = foldl np_add (?z ! i)
                        (map (obj_term self (rows toas) psr_dir (group_indices toas ! ii) i)
                           (bodies (PLANET_SHAPIRO self)))"
    using groups_loop_inside[OF loop _ mem assms(4) ing others dist] assms(7) by simp
  then show ?thesis using assms(7) by simp
qed

section \<open>The planetary toggle\<close>

lemma np_add_zero: "np_add (Fin 0) x = x"
  by (cases x) simp_all

lemma mass_of_simps:
  "mass_of m ''sun'' = Tsun m"
  "mass_of m ''jupiter'' = Tjupiter m"
  "mass_of m ''saturn'' = Tsaturn m"
  "mass_of m ''venus'' = Tvenus m"
  "mass_of m ''uranus'' = Turanus m"
  by (simp_all add: mass_of_def ss_mass_sec_def)

lemma obj_term_body_term:
  "obj_term self (rows toas) psr_dir (group_indices toas ! ii) i pl =
     body_term toas psr_dir ii i (pos_column pl) (mass_of (ss_masses self) pl)"
  by (simp add: obj_term_def body_term_def)

lemma table_getitem_same:
  assumes "same_except cols a b" "c \<notin> set cols"
  shows "table_getitem (colnames a) (take n (drop k (rows a))) c =
         table_getitem (colnames b) (take n (drop k (rows b))) c"
proof -
  have m: "map (\<lambda>r. cells r c) (rows a) = map (\<lambda>r. cells r c) (rows b)"
    and n: "c \<in> set (colnames a) \<longleftrightarrow> c \<in> set (colnames b)"
    using assms by (auto simp: same_except_def)
  have "map (\<lambda>r. cells r c) (take n (drop k (rows a))) =
        take n (drop k (map (\<lambda>r. cells r c) (rows a)))"
    by (simp add: take_map drop_map)
  also have "\<dots> = map (\<lambda>r. cells r c) (take n (drop k (rows b)))"
    unfolding m by (simp add: take_map drop_map)
  finally show ?thesis using n by (simp add: table_getitem_def)
qed

lemma add_obj_delay_cong:
  assumes "table_getitem names' grp' (pos_column pl) = table_getitem names grp (pos_column pl)"
  shows "add_obj_delay self names' grp' psr_dir lo hi pl delay =
         add_obj_delay self names grp psr_dir lo hi pl delay"
  using assms by (simp add: add_obj_delay_def pos_column_def)

lemma planets_loop_cong:
  assumes "\<forall>pl \<in> set pls.
             table_getitem names' grp' (pos_column pl) = table_getitem names grp (pos_column pl)"
  shows "planets_loop self names' grp' psr_dir lo hi pls delay =
         planets_loop self names grp psr_dir lo hi pls delay"
  using assms
proof (induction pls arbitrary: delay)
  case Nil
  show ?case by simp
next
  case (Cons pl pls)
  have h: "add_obj_delay self names' grp' psr_dir lo hi pl delay =
           add_obj_delay self names grp psr_dir lo hi pl delay"
    by (rule add_obj_delay_cong) (use Cons.prems in simp)
  have t: "\<And>d. planets_loop self names' grp' psr_dir lo hi pls d =
               planets_loop self names grp psr_dir lo hi pls d"
    by (rule Cons.IH) (use Cons.prems in simp)
  show ?case unfolding planets_loop.simps h t ..
qed

lemma used_not_excluded:
  "pl \<in> set [''sun'', ''jupiter'', ''saturn'', ''venus'', ''uranus'']
     \<Longrightarrow> pos_column pl \<notin> set excluded_columns"
  by (auto simp: pos_column_def excluded_columns_def)

lemma group_delay_same:
  assumes s: "same_except excluded_columns a b"
  shows "group_delay self (colnames a) (take n (drop k (rows a))) lo hi delay =
         group_delay self (colnames b) (take n (drop k (rows b))) lo hi delay"
proof -
  let ?ga = "take n (drop k (rows a))" and ?gb = "take n (drop k (rows b))"
  have td: "map tdbld ?ga = map tdbld ?gb"
  proof -
    have "map tdbld ?ga = take n (drop k (map tdbld (rows a)))"
      by (simp add: take_map drop_map)
    also have "\<dots> = map tdbld ?gb"
      using s by (simp add: same_except_def take_map drop_map)
    finally show ?thesis .
  qed
  have tg: "\<And>pl. pl \<in> set [''sun'', ''jupiter'', ''saturn'', ''venus'', ''uranus''] \<Longrightarrow>
              table_getitem (colnames a) ?ga (pos_column pl) =
              table_getitem (colnames b) ?gb (pos_column pl)"
    using table_getitem_same[OF s used_not_excluded] by blast
  have sun: "\<And>psr_dir d. add_obj_delay self (colnames a) ?ga psr_dir lo hi ''sun'' d =
                  add_obj_delay self (colnames b) ?gb psr_dir lo hi ''sun'' d"
    by (rule add_obj_delay_cong, rule tg) simp
  have pls: "\<And>psr_dir d.
                planets_loop self (colnames a) ?ga psr_dir lo hi
                  [''jupiter'', ''saturn'', ''venus'', ''uranus''] d =
                planets_loop self (colnames b) ?gb psr_dir lo hi
                  [''jupiter'', ''saturn'', ''venus'', ''uranus''] d"
    by (rule planets_loop_cong) (intro ballI tg, simp)
  show ?thesis
    unfolding group_delay_def td sun pls ..
qed

lemma group_body_same:
  assumes s: "same_except excluded_columns a b"
  shows "group_body self a ii key delay lg = group_body self b ii key delay lg"
proof -
  have ind: "group_indices b = group_indices a" using s by (simp add: same_except_def)
  have ip: "indices_pair b ii = indices_pair a ii"
    by (simp add: indices_pair_def ind)
  show ?thesis
  proof (cases "ii + 1 < length (group_indices a)")
    case False
    then show ?thesis by (simp add: group_body_def groups_getitem_def ind)
  next
    case True
    have ipa: "indices_pair a ii = Inr (group_indices a ! ii, group_indices a ! (ii + 1))"
      using True by (rule indices_pair_ok)
    show ?thesis
      unfolding group_body_def ip ipa
      using True by (simp add: groups_getitem_def ind group_delay_same[OF s])
  qed
qed

lemma groups_loop_same:
  assumes "same_except excluded_columns a b"
  shows "groups_loop self a ks delay lg = groups_loop self b ks delay lg"
proof (induction ks arbitrary: delay lg)
  case Nil
  show ?case by simp
next
  case (Cons k ks)
  obtain ii key where k: "k = (ii, key)" by (cases k)
  show ?case unfolding k
    by (simp add: group_body_same[OF assms] Cons.IH split: prod.splits sum.splits)
qed

lemma delay_same:
  assumes "same_except excluded_columns a b"
  shows "solar_system_shapiro_delay self a lg = solar_system_shapiro_delay self b lg"
proof -
  have "length (map tdbld (rows a)) = length (map tdbld (rows b))"
    using assms by (simp add: same_except_def)
  then have "length (rows a) = length (rows b)" by simp
  moreover have "group_keys a = group_keys b" using assms by (simp add: same_except_def)
  ultimately show ?thesis
    by (simp add: solar_system_shapiro_delay_def groups_loop_same[OF assms])
qed

text \<open>
  Whenever a call returns on a batch with sorted group indices, the delay of an
  observation in a group that is not barycentric is the Sun's term, or the Sun's term plus
  the four planetary terms; and batches that differ only in the columns of Mercury, Earth,
  Mars and Neptune give the same result.
\<close>

lemma toggle_returned:
  "(sorted (group_indices toas)
    \<and> solar_system_shapiro_delay self toas lg = (Inr d, lg')
    \<and> ii < length (group_keys toas) \<and> group_keys toas ! ii \<noteq> ''Barycenter''
    \<and> group_indices toas ! ii \<le> i \<and> i < group_indices toas ! (ii + 1)
    \<and> i < length (rows toas)
    \<longrightarrow> (\<exists>psr_dir.
           ssb_to_psb_xyz self (map tdbld (group_rows toas ii)) = Inr psr_dir
           \<and> d ! i =
               (if PLANET_SHAPIRO self
                then np_add (np_add (np_add (np_add
                       (body_term toas psr_dir ii i ''obs_sun_pos'' (Tsun (ss_masses self)))
                       (body_term toas psr_dir ii i ''obs_jupiter_pos'' (Tjupiter (ss_masses self))))
                       (body_term toas psr_dir ii i ''obs_saturn_pos'' (Tsaturn (ss_masses self))))
                       (body_term toas psr_dir ii i ''obs_venus_pos'' (Tvenus (ss_masses self))))
                       (body_term toas psr_dir ii i ''obs_uranus_pos'' (Turanus (ss_masses self)))
                else body_term toas psr_dir ii i ''obs_sun_pos'' (Tsun (ss_masses self)))))
   \<and> (same_except excluded_columns toas toas'
        \<longrightarrow> solar_system_shapiro_delay self toas' lg = solar_system_shapiro_delay self toas lg)"
proof (intro conjI impI)
  assume h: "sorted (group_indices toas)
    \<and> solar_system_shapiro_delay self toas lg = (Inr d, lg')
    \<and> ii < length (group_keys toas) \<and> group_keys toas ! ii \<noteq> ''Barycenter''
    \<and> group_indices toas ! ii \<le> i \<and> i < group_indices toas ! (ii + 1)
    \<and> i < length (rows toas)"
  then obtain psr_dir where
    p: "ssb_to_psb_xyz self (map tdbld (group_rows toas ii)) = Inr psr_dir" and
    d: "d ! i = foldl np_add (Fin 0)
                        (map (obj_term self (rows toas) psr_dir (group_indices toas ! ii) i)
                           (bodies (PLANET_SHAPIRO self)))"
    using toggle_point[of toas self lg d lg' ii i] by blast
  have "d ! i =
               (if PLANET_SHAPIRO self
                then np_add (np_add (np_add (np_add
                       (body_term toas psr_dir ii i ''obs_sun_pos'' (Tsun (ss_masses self)))
                       (body_term toas psr_dir ii i ''obs_jupiter_pos'' (Tjupiter (ss_masses self))))
                       (body_term toas psr_dir ii i ''obs_saturn_pos'' (Tsaturn (ss_masses self))))
                       (body_term toas psr_dir ii i ''obs_venus_pos'' (Tvenus (ss_masses self))))
                       (body_term toas psr_dir ii i ''obs_uranus_pos'' (Turanus (ss_masses self)))
                else body_term toas psr_dir ii i ''obs_sun_pos'' (Tsun (ss_masses self)))"
    unfolding d obj_term_body_term
    by (simp add: bodies_def np_add_zero mass_of_simps pos_column_def)
  then show "\<exists>psr_dir.
           ssb_to_psb_xyz self (map tdbld (group_rows toas ii)) = Inr psr_dir
           \<and> d ! i =
               (if PLANET_SHAPIRO self
                then np_add (np_add (np_add (np_add
                       (body_term toas psr_dir ii i ''obs_sun_pos'' (Tsun (ss_masses self)))
                       (body_term toas psr_dir ii i ''obs_jupiter_pos'' (Tjupiter (ss_masses self))))
                       (body_term toas psr_dir ii i ''obs_saturn_pos'' (Tsaturn (ss_masses self))))
                       (body_term toas psr_dir ii i ''obs_venus_pos'' (Tvenus (ss_masses self))))
                       (body_term toas psr_dir ii i ''obs_uranus_pos'' (Turanus (ss_masses self)))
                else body_term toas psr_dir ii i ''obs_sun_pos'' (Tsun (ss_masses self)))"
    using p by blast
next
  assume "same_except excluded_columns toas toas'"
  then show "solar_system_shapiro_delay self toas' lg = solar_system_shapiro_delay self toas lg"
    by (simp add: delay_same)
qed

section \<open>The delay vector\<close>

text \<open>
  Whenever a call returns, the vector has one element per row; a batch without groups
  returns zeros; a per-object statement adds to the elements of its slice and leaves the
  others as they were.
\<close>

lemma delay_vector_steps:
  "(solar_system_shapiro_delay self toas lg = (Inr d, lg') \<longrightarrow> length d = length (rows toas))
   \<and> (group_keys toas = [] \<longrightarrow>
        solar_system_shapiro_delay self toas lg = (Inr (replicate (length (rows toas)) (Fin 0)), lg))
   \<and> (add_obj_delay self names grp psr_dir loind hiind pl delay = Inr delay' \<longrightarrow>
        length delay' = length delay
        \<and> (\<exists>x. ss_obj_shapiro_delay (map (\<lambda>r. cells r (''obs_'' @ pl @ ''_pos'')) grp) psr_dir
                  (mass_of (ss_masses self) pl) = Inr x
               \<and> (\<forall>i<length delay.
                     delay' ! i =
                       (if loind \<le> i \<and> i < hiind
                        then np_add (delay ! i) (x ! bidx (length x) (i - loind))
                        else delay ! i))))"
proof (intro conjI impI)
  assume "solar_system_shapiro_delay self toas lg = (Inr d, lg')"
  then show "length d = length (rows toas)"
    using groups_loop_length[of self toas _ "replicate (length (rows toas)) (Fin 0)" lg d lg']
    by (simp add: solar_system_shapiro_delay_def)
next
  assume "group_keys toas = []"
  then show "solar_system_shapiro_delay self toas lg =
               (Inr (replicate (length (rows toas)) (Fin 0)), lg)"
    by (simp add: solar_system_shapiro_delay_def)
next
  assume a: "add_obj_delay self names grp psr_dir loind hiind pl delay = Inr delay'"
  from add_obj_delay_Inr(2)[OF a] obtain x where
    x: "ss_obj_shapiro_delay (map (\<lambda>r. cells r (pos_column pl)) grp) psr_dir
          (mass_of (ss_masses self) pl) = Inr x" and
    s: "slice_iadd delay loind hiind x = Inr delay'"
    by blast
  show "length delay' = length delay" using slice_iadd_Inr(1)[OF s] .
  show "\<exists>x. ss_obj_shapiro_delay (map (\<lambda>r. cells r (''obs_'' @ pl @ ''_pos'')) grp) psr_dir
                  (mass_of (ss_masses self) pl) = Inr x
               \<and> (\<forall>i<length delay.
                     delay' ! i =
                       (if loind \<le> i \<and> i < hiind
                        then np_add (delay ! i) (x ! bidx (length x) (i - loind))
                        else delay ! i))"
    using x slice_iadd_Inr(2)[OF s] unfolding pos_column_def by blast
qed

section \<open>The call returns on a complete batch\<close>

lemma slice_iadd_ok:
  assumes "length x = length (take (hi - lo) (drop lo delay))"
  shows "\<exists>d'. slice_iadd delay lo hi x = Inr d'"
  using assms by (simp add: slice_iadd_def broadcast2_def Let_def)

lemma dict_getitem_bodies:
  assumes "pl \<in> set [''sun'', ''jupiter'', ''saturn'', ''venus'', ''uranus'']"
  shows "dict_getitem (ss_mass_sec m) pl = Inr (mass_of m pl)"
  using assms by (auto simp: dict_getitem_def mass_of_def ss_mass_sec_def)

lemma add_obj_delay_ok:
  assumes col: "pos_column pl \<in> set names"
    and pl: "pl \<in> set [''sun'', ''jupiter'', ''saturn'', ''venus'', ''uranus'']"
    and dir: "length psr_dir = length (take (hi - lo) (drop lo rws))"
    and len: "length delay = length rws"
  shows "\<exists>d'. add_obj_delay self names (take (hi - lo) (drop lo rws)) psr_dir lo hi pl delay = Inr d'"
proof -
  let ?grp = "take (hi - lo) (drop lo rws)"
  have g: "table_getitem names ?grp (''obs_'' @ pl @ ''_pos'') = Inr (map (\<lambda>r. cells r (pos_column pl)) ?grp)"
    using col by (simp add: table_getitem_def pos_column_def)
  have m: "dict_getitem (ss_mass_sec (ss_masses self)) pl = Inr (mass_of (ss_masses self) pl)"
    using pl by (rule dict_getitem_bodies)
  have "length (map (\<lambda>r. cells r (pos_column pl)) ?grp) = length psr_dir"
    using dir by simp
  from ss_obj_same_length[OF this, of "mass_of (ss_masses self) pl"]
  obtain x where x: "ss_obj_shapiro_delay (map (\<lambda>r. cells r (pos_column pl)) ?grp) psr_dir
                        (mass_of (ss_masses self) pl) = Inr x"
    and lx: "length x = length ?grp"
    using dir by auto
  have "length x = length (take (hi - lo) (drop lo delay))"
    using lx len by simp
  from slice_iadd_ok[OF this] obtain d' where "slice_iadd delay lo hi x = Inr d'" by blast
  then show ?thesis
    unfolding add_obj_delay_def g by (simp add: m x)
qed

lemma planets_loop_ok:
  assumes "\<forall>pl \<in> set pls. pos_column pl \<in> set names
              \<and> pl \<in> set [''sun'', ''jupiter'', ''saturn'', ''venus'', ''uranus'']"
    and "length psr_dir = length (take (hi - lo) (drop lo rws))"
    and "length delay = length rws"
  shows "\<exists>d'. planets_loop self names (take (hi - lo) (drop lo rws)) psr_dir lo hi pls delay = Inr d'"
  using assms
proof (induction pls arbitrary: delay)
  case Nil
  show ?case by simp
next
  case (Cons pl pls)
  obtain d1 where d1: "add_obj_delay self names (take (hi - lo) (drop lo rws)) psr_dir lo hi pl delay = Inr d1"
    using add_obj_delay_ok[of pl names psr_dir hi lo rws delay self] Cons.prems by auto
  have "length d1 = length rws"
    using add_obj_delay_point(1)[OF d1 Cons.prems(3)] Cons.prems(3) by simp
  then obtain d' where "planets_loop self names (take (hi - lo) (drop lo rws)) psr_dir lo hi pls d1 = Inr d'"
    using Cons.IH[of d1] Cons.prems(1,2) by auto
  then show ?case using d1 by simp
qed

lemma group_body_ok:
  assumes c: "complete_batch self toas" and ii: "ii < length (group_keys toas)"
    and len: "length delay = length (rows toas)"
  shows "\<exists>d' lg'. group_body self toas ii (group_keys toas ! ii) delay lg = (Inr d', lg')"
proof (cases "group_keys toas ! ii = ''Barycenter''")
  case True
  have "ii + 1 < length (group_indices toas)" using c ii by (simp add: complete_batch_def)
  then show ?thesis using True by (simp add: group_body_barycenter)
next
  case False
  let ?lo = "group_indices toas ! ii" and ?hi = "group_indices toas ! Suc ii"
  let ?grp = "take (?hi - ?lo) (drop ?lo (rows toas))"
  have idx: "ii + 1 < length (group_indices toas)" using c ii by (simp add: complete_batch_def)
  have gr: "group_rows toas ii = ?grp" by (simp add: group_rows_def)
  have "(\<exists>psr_dir. ssb_to_psb_xyz self (map tdbld (group_rows toas ii)) = Inr psr_dir
                  \<and> length psr_dir = length (group_rows toas ii))
              \<and> (\<forall>pl \<in> set (bodies (PLANET_SHAPIRO self)).
                    ''obs_'' @ pl @ ''_pos'' \<in> set (colnames toas))"
    using c ii False unfolding complete_batch_def by blast
  then obtain psr_dir where
    p: "ssb_to_psb_xyz self (map tdbld ?grp) = Inr psr_dir" and
    lp: "length psr_dir = length ?grp" and
    cols: "\<forall>pl \<in> set (bodies (PLANET_SHAPIRO self)). pos_column pl \<in> set (colnames toas)"
    unfolding gr pos_column_def by blast
  have sun: "pos_column ''sun'' \<in> set (colnames toas)"
    using cols by (simp add: bodies_def split: if_splits)
  obtain d1 where d1: "add_obj_delay self (colnames toas) ?grp psr_dir ?lo ?hi ''sun'' delay = Inr d1"
    using add_obj_delay_ok[OF sun _ lp len, of self] by auto
  have l1: "length d1 = length (rows toas)"
    using add_obj_delay_point(1)[OF d1 len] len by simp
  have "\<exists>d'. group_delay self (colnames toas) ?grp ?lo ?hi delay = Inr d'"
  proof (cases "PLANET_SHAPIRO self")
    case True
    then have "\<forall>pl \<in> set [''jupiter'', ''saturn'', ''venus'', ''uranus''].
                 pos_column pl \<in> set (colnames toas)
                 \<and> pl \<in> set [''sun'', ''jupiter'', ''saturn'', ''venus'', ''uranus'']"
      using cols by (simp add: bodies_def)
    from planets_loop_ok[OF this lp l1, of self]
    obtain d' where "planets_loop self (colnames toas) ?grp psr_dir ?lo ?hi
                       [''jupiter'', ''saturn'', ''venus'', ''uranus''] d1 = Inr d'" by blast
    then show ?thesis using True by (simp add: group_delay_def p d1)
  next
    case False
    then show ?thesis by (simp add: group_delay_def p d1)
  qed
  then obtain d' where gd: "group_delay self (colnames toas) ?grp ?lo ?hi delay = Inr d'" by blast
  have gi: "groups_getitem toas ii = Inr ?grp"
    using idx by (simp add: groups_getitem_def)
  have ip: "indices_pair toas ii = Inr (?lo, ?hi)"
    using indices_pair_ok[OF idx] by simp
  show ?thesis
    using False gd by (simp add: group_body_def gi ip)
qed

lemma groups_loop_ok:
  assumes c: "complete_batch self toas"
    and ks: "\<forall>k \<in> set ks. fst k < length (group_keys toas) \<and> snd k = group_keys toas ! fst k"
    and len: "length delay = length (rows toas)"
  shows "\<exists>d lg'. groups_loop self toas ks delay lg = (Inr d, lg')"
  using ks len
proof (induction ks arbitrary: delay lg)
  case Nil
  show ?case by simp
next
  case (Cons k ks)
  obtain ii key where k: "k = (ii, key)" by (cases k)
  have ii: "ii < length (group_keys toas)" and key: "key = group_keys toas ! ii"
    using Cons.prems(1) k by auto
  obtain d1 lg1 where b: "group_body self toas ii key delay lg = (Inr d1, lg1)"
    using group_body_ok[OF c ii Cons.prems(2), of lg] key by auto
  have "length d1 = length (rows toas)"
    using group_body_length[OF b Cons.prems(2)] Cons.prems(2) by simp
  then obtain d lg' where "groups_loop self toas ks d1 lg1 = (Inr d, lg')"
    using Cons.IH[of d1 lg1] Cons.prems(1) by auto
  then show ?case using b k by simp
qed

lemma enumerate_keys_all:
  "\<forall>k \<in> set (enumerate 0 ks). fst k < length ks \<and> snd k = ks ! fst k"
  by (auto simp: in_set_enumerate_eq)

lemma psr_dir_of_Inr:
  "ssb_to_psb_xyz self (map tdbld (group_rows toas ii)) = Inr psr_dir
     \<Longrightarrow> psr_dir_of self toas ii = psr_dir"
  by (simp add: psr_dir_of_def)

lemma group_body_terms:
  assumes ok: "group_body self toas ii key delay lg = (Inr d1, lg1)"
    and len: "length delay = length (rows toas)"
    and i: "i < length (rows toas)"
    and dirs: "key \<noteq> ''Barycenter'' \<longrightarrow> length (psr_dir_of self toas ii) = length (group_rows toas ii)"
  shows "d1 ! i = foldl np_add (delay ! i) (group_terms self toas i (ii, key))"
proof (cases "key = ''Barycenter''")
  case True
  have "d1 ! i = delay ! i"
    using group_body_outside[OF ok len _ ] True i len by simp
  then show ?thesis using True by (simp add: group_terms_def)
next
  case False
  from group_body_nonbary(3)[OF False ok len] obtain psr_dir where
    p: "ssb_to_psb_xyz self (map tdbld (group_rows toas ii)) = Inr psr_dir" and
    v: "d1 ! i = (if in_group toas ii i
                    then foldl np_add (delay ! i)
                           (map (obj_term self (rows toas) psr_dir (group_indices toas ! ii) i)
                              (bodies (PLANET_SHAPIRO self)))
                    else delay ! i)"
    using i len by auto
  have pd: "psr_dir_of self toas ii = psr_dir" using psr_dir_of_Inr[OF p] .
  show ?thesis
  proof (cases "in_group toas ii i")
    case ng: False
    then show ?thesis using v by (simp add: group_terms_def)
  next
    case True
    have "i - group_indices toas ! ii < length (group_rows toas ii)"
      unfolding group_rows_def using True i
      by (intro length_slice_gt) (simp_all add: in_group_def)
    then have "i - group_indices toas ! ii < length psr_dir"
      using dirs False pd by simp
    then have "bidx (length psr_dir) (i - group_indices toas ! ii) = i - group_indices toas ! ii"
      by (auto simp: bidx_def)
    then have "obj_term self (rows toas) psr_dir (group_indices toas ! ii) i =
          (\<lambda>pl. shapiro_term (cells (rows toas ! i) (''obs_'' @ pl @ ''_pos''))
                   (psr_dir ! (i - group_indices toas ! ii)) (mass_of (ss_masses self) pl))"
      by (simp add: obj_term_def pos_column_def fun_eq_iff)
    then show ?thesis using v True False pd by (simp add: group_terms_def)
  qed
qed

lemma groups_loop_terms:
  assumes "groups_loop self toas ks delay lg = (Inr d, lg')"
    and "length delay = length (rows toas)"
    and "i < length (rows toas)"
    and "\<forall>k \<in> set ks. snd k \<noteq> ''Barycenter'' \<longrightarrow>
           length (psr_dir_of self toas (fst k)) = length (group_rows toas (fst k))"
  shows "d ! i = foldl np_add (delay ! i) (concat (map (group_terms self toas i) ks))"
  using assms
proof (induction ks arbitrary: delay lg)
  case Nil
  then show ?case by simp
next
  case (Cons k ks)
  obtain ii key where k: "k = (ii, key)" by (cases k)
  from Cons.prems(1) obtain d1 lg1 where
    b: "group_body self toas ii key delay lg = (Inr d1, lg1)" and
    r: "groups_loop self toas ks d1 lg1 = (Inr d, lg')"
    unfolding k by (auto split: prod.splits sum.splits)
  have l1: "length d1 = length (rows toas)"
    using group_body_length[OF b Cons.prems(2)] Cons.prems(2) by simp
  have s1: "d1 ! i = foldl np_add (delay ! i) (group_terms self toas i (ii, key))"
    using group_body_terms[OF b Cons.prems(2,3)] Cons.prems(4) k by simp
  have "d ! i = foldl np_add (d1 ! i) (concat (map (group_terms self toas i) ks))"
    using Cons.IH[OF r l1 Cons.prems(3)] Cons.prems(4) by simp
  then show ?case using s1 k by simp
qed

lemma complete_batch_dirs:
  assumes "complete_batch self toas"
  shows "\<forall>k \<in> set (enumerate 0 (group_keys toas)). snd k \<noteq> ''Barycenter'' \<longrightarrow>
           length (psr_dir_of self toas (fst k)) = length (group_rows toas (fst k))"
proof
  fix k assume k: "k \<in> set (enumerate 0 (group_keys toas))"
  then have a: "fst k < length (group_keys toas)" "snd k = group_keys toas ! fst k"
    using enumerate_keys_all by auto
  show "snd k \<noteq> ''Barycenter'' \<longrightarrow>
           length (psr_dir_of self toas (fst k)) = length (group_rows toas (fst k))"
  proof
    assume "snd k \<noteq> ''Barycenter''"
    then obtain psr_dir where
      "ssb_to_psb_xyz self (map tdbld (group_rows toas (fst k))) = Inr psr_dir"
      "length psr_dir = length (group_rows toas (fst k))"
      using assms a unfolding complete_batch_def by metis
    then show "length (psr_dir_of self toas (fst k)) = length (group_rows toas (fst k))"
      by (simp add: psr_dir_of_def)
  qed
qed

lemma groups_loop_total:
  assumes c: "complete_batch self toas" and len: "length delay0 = length (rows toas)"
  shows "\<exists>d. groups_loop self toas (enumerate 0 (group_keys toas)) delay0 lg =
               (Inr d, lg @ replicate (length (filter (\<lambda>k. k = ''Barycenter'') (group_keys toas)))
                              skip_message)
             \<and> length d = length (rows toas)
             \<and> (\<forall>i<length (rows toas).
                   d ! i = foldl np_add (delay0 ! i) (contributions self toas i))"
proof -
  obtain d lg' where r: "groups_loop self toas (enumerate 0 (group_keys toas)) delay0 lg = (Inr d, lg')"
    using groups_loop_ok[OF c enumerate_keys_all len] by blast
  have lg': "lg' = lg @ replicate (length (filter (\<lambda>k. k = ''Barycenter'') (group_keys toas)))
                              skip_message"
    using groups_loop_log[OF r] by (simp add: count_enumerate)
  have l: "length d = length (rows toas)" using groups_loop_length[OF r len] .
  have "\<forall>i<length (rows toas). d ! i = foldl np_add (delay0 ! i) (contributions self toas i)"
    using groups_loop_terms[OF r len _ complete_batch_dirs[OF c]]
    by (simp add: contributions_def)
  then show ?thesis using r lg' l by blast
qed

lemma concat_map_single:
  assumes n: "n < length xs" and e: "\<forall>j<length xs. j \<noteq> n \<longrightarrow> f (xs ! j) = []"
  shows "concat (map f xs) = f (xs ! n)"
proof -
  have xs: "xs = take n xs @ xs ! n # drop (Suc n) xs"
    using n by (simp add: id_take_nth_drop)
  have a: "\<forall>x \<in> set (take n xs). f x = []"
  proof
    fix x assume "x \<in> set (take n xs)"
    then obtain j where "j < length (take n xs)" "take n xs ! j = x"
      by (auto simp: in_set_conv_nth)
    then show "f x = []" using e n by auto
  qed
  have b: "\<forall>x \<in> set (drop (Suc n) xs). f x = []"
  proof
    fix x assume "x \<in> set (drop (Suc n) xs)"
    then obtain j where j: "j < length (drop (Suc n) xs)" "drop (Suc n) xs ! j = x"
      by (auto simp: in_set_conv_nth)
    then have "x = xs ! (Suc n + j)" using n by simp
    moreover have "Suc n + j < length xs" "Suc n + j \<noteq> n" using j by auto
    ultimately show "f x = []" using e by blast
  qed
  have "concat (map f xs) =
          concat (map f (take n xs)) @ f (xs ! n) @ concat (map f (drop (Suc n) xs))"
    by (subst xs) simp
  moreover have "concat (map f (take n xs)) = []" using a by simp
  moreover have "concat (map f (drop (Suc n) xs)) = []" using b by simp
  ultimately show ?thesis by simp
qed

lemma nth_enumerate0: "j < length ks \<Longrightarrow> enumerate 0 ks ! j = (j, ks ! j)"
  by (simp add: nth_enumerate_eq)

lemma contributions_unique:
  assumes ii: "ii < length (group_keys toas)"
    and e: "\<forall>jj<length (group_keys toas). jj \<noteq> ii \<longrightarrow> \<not> in_group toas jj i"
  shows "contributions self toas i = group_terms self toas i (ii, group_keys toas ! ii)"
proof -
  let ?ks = "enumerate 0 (group_keys toas)"
  have n: "ii < length ?ks" using ii by simp
  have "\<forall>j<length ?ks. j \<noteq> ii \<longrightarrow> group_terms self toas i (?ks ! j) = []"
    using e by (simp add: nth_enumerate0 group_terms_def)
  from concat_map_single[OF n this]
  show ?thesis using ii by (simp add: contributions_def nth_enumerate0)
qed

lemma contributions_none:
  assumes "\<forall>jj<length (group_keys toas).
             in_group toas jj i \<longrightarrow> group_keys toas ! jj = ''Barycenter''"
  shows "contributions self toas i = []"
proof -
  have "\<forall>k \<in> set (enumerate 0 (group_keys toas)). group_terms self toas i k = []"
    using assms enumerate_keys_all[of "group_keys toas"]
    by (auto simp: group_terms_def)
  then show ?thesis by (simp add: contributions_def)
qed

lemma group_terms_toggle:
  assumes "in_group toas ii i" "key \<noteq> ''Barycenter''"
  shows "foldl np_add (Fin 0) (group_terms self toas i (ii, key)) =
           (if PLANET_SHAPIRO self
            then np_add (np_add (np_add (np_add
                   (delay_term self toas ii i ''obs_sun_pos'' (Tsun (ss_masses self)))
                   (delay_term self toas ii i ''obs_jupiter_pos'' (Tjupiter (ss_masses self))))
                   (delay_term self toas ii i ''obs_saturn_pos'' (Tsaturn (ss_masses self))))
                   (delay_term self toas ii i ''obs_venus_pos'' (Tvenus (ss_masses self))))
                   (delay_term self toas ii i ''obs_uranus_pos'' (Turanus (ss_masses self)))
            else delay_term self toas ii i ''obs_sun_pos'' (Tsun (ss_masses self)))"
  using assms
  by (simp add: group_terms_def bodies_def delay_term_def np_add_zero mass_of_simps
        del: shapiro_term.simps)

lemma toggle_total:
  assumes c: "complete_batch self toas" and s: "sorted (group_indices toas)"
  shows "\<exists>d. solar_system_shapiro_delay self toas lg =
               (Inr d, lg @ replicate (length (filter (\<lambda>k. k = ''Barycenter'') (group_keys toas)))
                              skip_message)
           \<and> length d = length (rows toas)
           \<and> (\<forall>i<length (rows toas).
                 (\<forall>ii<length (group_keys toas).
                    in_group toas ii i \<longrightarrow>
                      d ! i =
                        (if group_keys toas ! ii = ''Barycenter'' then Fin 0
                         else if PLANET_SHAPIRO self
                         then np_add (np_add (np_add (np_add
                                (delay_term self toas ii i ''obs_sun_pos'' (Tsun (ss_masses self)))
                                (delay_term self toas ii i ''obs_jupiter_pos'' (Tjupiter (ss_masses self))))
                                (delay_term self toas ii i ''obs_saturn_pos'' (Tsaturn (ss_masses self))))
                                (delay_term self toas ii i ''obs_venus_pos'' (Tvenus (ss_masses self))))
                                (delay_term self toas ii i ''obs_uranus_pos'' (Turanus (ss_masses self)))
                         else delay_term self toas ii i ''obs_sun_pos'' (Tsun (ss_masses self))))
                 \<and> ((\<forall>ii<length (group_keys toas). \<not> in_group toas ii i) \<longrightarrow> d ! i = Fin 0))"
proof -
  let ?z = "replicate (length (rows toas)) (Fin 0)"
  from groups_loop_total[OF c, of ?z lg] obtain d where
    r: "groups_loop self toas (enumerate 0 (group_keys toas)) ?z lg =
               (Inr d, lg @ replicate (length (filter (\<lambda>k. k = ''Barycenter'') (group_keys toas)))
                              skip_message)" and
    l: "length d = length (rows toas)" and
    v: "\<forall>i<length (rows toas). d ! i = foldl np_add (?z ! i) (contributions self toas i)"
    by auto
  have li: "length (group_indices toas) = length (group_keys toas) + 1"
    using c by (simp add: complete_batch_def)
  have vals: "(\<forall>ii<length (group_keys toas).
                    in_group toas ii i \<longrightarrow>
                      d ! i =
                        (if group_keys toas ! ii = ''Barycenter'' then Fin 0
                         else if PLANET_SHAPIRO self
                         then np_add (np_add (np_add (np_add
                                (delay_term self toas ii i ''obs_sun_pos'' (Tsun (ss_masses self)))
                                (delay_term self toas ii i ''obs_jupiter_pos'' (Tjupiter (ss_masses self))))
                                (delay_term self toas ii i ''obs_saturn_pos'' (Tsaturn (ss_masses self))))
                                (delay_term self toas ii i ''obs_venus_pos'' (Tvenus (ss_masses self))))
                                (delay_term self toas ii i ''obs_uranus_pos'' (Turanus (ss_masses self)))
                         else delay_term self toas ii i ''obs_sun_pos'' (Tsun (ss_masses self))))
                 \<and> ((\<forall>ii<length (group_keys toas). \<not> in_group toas ii i) \<longrightarrow> d ! i = Fin 0)"
    if i: "i < length (rows toas)" for i
  proof (intro conjI allI impI)
    fix ii assume ii: "ii < length (group_keys toas)" and ing: "in_group toas ii i"
    have di: "d ! i = foldl np_add (Fin 0) (contributions self toas i)"
      using v i by simp
    have others: "\<forall>jj<length (group_keys toas). jj \<noteq> ii \<longrightarrow> \<not> in_group toas jj i"
    proof (intro allI impI)
      fix jj assume jj: "jj < length (group_keys toas)" and ne: "jj \<noteq> ii"
      have "\<not> (group_indices toas ! jj \<le> i \<and> i < group_indices toas ! (jj + 1))"
        using disjoint_groups[OF s _ _ ne, of i] ii jj li ing by (simp add: in_group_def)
      then show "\<not> in_group toas jj i" by (simp add: in_group_def)
    qed
    have cu: "contributions self toas i = group_terms self toas i (ii, group_keys toas ! ii)"
      using contributions_unique[OF ii others] .
    show "d ! i =
                        (if group_keys toas ! ii = ''Barycenter'' then Fin 0
                         else if PLANET_SHAPIRO self
                         then np_add (np_add (np_add (np_add
                                (delay_term self toas ii i ''obs_sun_pos'' (Tsun (ss_masses self)))
                                (delay_term self toas ii i ''obs_jupiter_pos'' (Tjupiter (ss_masses self))))
                                (delay_term self toas ii i ''obs_saturn_pos'' (Tsaturn (ss_masses self))))
                                (delay_term self toas ii i ''obs_venus_pos'' (Tvenus (ss_masses self))))
                                (delay_term self toas ii i ''obs_uranus_pos'' (Turanus (ss_masses self)))
                         else delay_term self toas ii i ''obs_sun_pos'' (Tsun (ss_masses self)))"
    proof (cases "group_keys toas ! ii = ''Barycenter''")
      case True
      then show ?thesis using di cu by (simp add: group_terms_def)
    next
      case False
      then show ?thesis
        unfolding di cu using group_terms_toggle[OF ing False, of self] by simp
    qed
  next
    assume "\<forall>ii<length (group_keys toas). \<not> in_group toas ii i"
    then have "contributions self toas i = []"
      by (intro contributions_none) simp
    then show "d ! i = Fin 0" using v i by simp
  qed
  show ?thesis
    using r l vals by (auto simp: solar_system_shapiro_delay_def)
qed

text \<open>
  C2. For every batch that has what the loop reads and whose group indices are sorted,
  the call returns a delay vector with one element per observation; an observation in a
  group that is not barycentric gets the Sun's term alone when \<open>PLANET_SHAPIRO\<close> is
  false, and the Sun's term plus the terms of Jupiter, Saturn, Venus and Uranus, added in
  this order, when it is true; an observation in a barycentric group or in no group gets
  zero. The same values hold whenever a call returns on a batch with sorted group
  indices. Two batches that differ only in the presence or the contents of the columns
  of Mercury, Earth, Mars and Neptune give the same result, for either value of the
  parameter.
\<close>

theorem planet_toggle:
  "(complete_batch self toas \<and> sorted (group_indices toas) \<longrightarrow>
     (\<exists>d. solar_system_shapiro_delay self toas lg =
               (Inr d, lg @ replicate (length (filter (\<lambda>k. k = ''Barycenter'') (group_keys toas)))
                              skip_message)
           \<and> length d = length (rows toas)
           \<and> (\<forall>i<length (rows toas).
                 (\<forall>ii<length (group_keys toas).
                    in_group toas ii i \<longrightarrow>
                      d ! i =
                        (if group_keys toas ! ii = ''Barycenter'' then Fin 0
                         else if PLANET_SHAPIRO self
                         then np_add (np_add (np_add (np_add
                                (delay_term self toas ii i ''obs_sun_pos'' (Tsun (ss_masses self)))
                                (delay_term self toas ii i ''obs_jupiter_pos'' (Tjupiter (ss_masses self))))
                                (delay_term self toas ii i ''obs_saturn_pos'' (Tsaturn (ss_masses self))))
                                (delay_term self toas ii i ''obs_venus_pos'' (Tvenus (ss_masses self))))
                                (delay_term self toas ii i ''obs_uranus_pos'' (Turanus (ss_masses self)))
                         else delay_term self toas ii i ''obs_sun_pos'' (Tsun (ss_masses self))))
                 \<and> ((\<forall>ii<length (group_keys toas). \<not> in_group toas ii i) \<longrightarrow> d ! i = Fin 0))))
   \<and> (sorted (group_indices toas)
    \<and> solar_system_shapiro_delay self toas lg = (Inr d', lg')
    \<and> ii' < length (group_keys toas) \<and> group_keys toas ! ii' \<noteq> ''Barycenter''
    \<and> group_indices toas ! ii' \<le> i' \<and> i' < group_indices toas ! (ii' + 1)
    \<and> i' < length (rows toas)
    \<longrightarrow> (\<exists>psr_dir.
           ssb_to_psb_xyz self (map tdbld (group_rows toas ii')) = Inr psr_dir
           \<and> d' ! i' =
               (if PLANET_SHAPIRO self
                then np_add (np_add (np_add (np_add
                       (body_term toas psr_dir ii' i' ''obs_sun_pos'' (Tsun (ss_masses self)))
                       (body_term toas psr_dir ii' i' ''obs_jupiter_pos'' (Tjupiter (ss_masses self))))
                       (body_term toas psr_dir ii' i' ''obs_saturn_pos'' (Tsaturn (ss_masses self))))
                       (body_term toas psr_dir ii' i' ''obs_venus_pos'' (Tvenus (ss_masses self))))
                       (body_term toas psr_dir ii' i' ''obs_uranus_pos'' (Turanus (ss_masses self)))
                else body_term toas psr_dir ii' i' ''obs_sun_pos'' (Tsun (ss_masses self)))))
   \<and> (same_except excluded_columns toas toas'
        \<longrightarrow> solar_system_shapiro_delay self toas' lg = solar_system_shapiro_delay self toas lg)"
  using toggle_total[of self toas lg] toggle_returned[of toas self lg d' lg' ii' i' toas']
  by blast

text \<open>
  C4. For every batch that has what the loop reads, the loop over the groups, started
  on any array \<open>delay0\<close> with one element per observation, returns an array of the same
  length in which every element is the element of \<open>delay0\<close> with every contribution of
  every object added to it, in the order of the loop: nothing is replaced. The call
  starts the loop on zeros, so that it returns, for every observation, zero plus its
  contributions. Whenever a call returns, the vector has one element per row; a batch
  without groups returns the zero vector; and each per-object statement adds the object's
  delay to the elements of the slice \<open>loind..hiind\<close> and leaves every other element as it
  was. (The vector is a bare array of floats; that its values are seconds is a convention
  the model does not carry.)
\<close>

theorem delay_vector_invariant:
  "(complete_batch self toas \<and> length delay0 = length (rows toas) \<longrightarrow>
      (\<exists>d. groups_loop self toas (enumerate 0 (group_keys toas)) delay0 lg =
               (Inr d, lg @ replicate (length (filter (\<lambda>k. k = ''Barycenter'') (group_keys toas)))
                              skip_message)
            \<and> length d = length (rows toas)
            \<and> (\<forall>i<length (rows toas).
                  d ! i = foldl np_add (delay0 ! i) (contributions self toas i))))
   \<and> (complete_batch self toas \<longrightarrow>
      (\<exists>d. solar_system_shapiro_delay self toas lg =
               (Inr d, lg @ replicate (length (filter (\<lambda>k. k = ''Barycenter'') (group_keys toas)))
                              skip_message)
            \<and> length d = length (rows toas)
            \<and> (\<forall>i<length (rows toas).
                  d ! i = foldl np_add (Fin 0) (contributions self toas i))))
   \<and> (solar_system_shapiro_delay self toas lg = (Inr d', lg') \<longrightarrow> length d' = length (rows toas))
   \<and> (group_keys toas = [] \<longrightarrow>
        solar_system_shapiro_delay self toas lg = (Inr (replicate (length (rows toas)) (Fin 0)), lg))
   \<and> (add_obj_delay self names grp psr_dir loind hiind pl delay = Inr delay' \<longrightarrow>
        length delay' = length delay
        \<and> (\<exists>x. ss_obj_shapiro_delay (map (\<lambda>r. cells r (''obs_'' @ pl @ ''_pos'')) grp) psr_dir
                  (mass_of (ss_masses self) pl) = Inr x
               \<and> (\<forall>i<length delay.
                     delay' ! i =
                       (if loind \<le> i \<and> i < hiind
                        then np_add (delay ! i) (x ! bidx (length x) (i - loind))
                        else delay ! i))))"
proof -
  have a: "complete_batch self toas \<and> length delay0 = length (rows toas) \<longrightarrow>
      (\<exists>d. groups_loop self toas (enumerate 0 (group_keys toas)) delay0 lg =
               (Inr d, lg @ replicate (length (filter (\<lambda>k. k = ''Barycenter'') (group_keys toas)))
                              skip_message)
            \<and> length d = length (rows toas)
            \<and> (\<forall>i<length (rows toas).
                  d ! i = foldl np_add (delay0 ! i) (contributions self toas i)))"
    using groups_loop_total[of self toas delay0 lg] by blast
  have b: "complete_batch self toas \<longrightarrow>
      (\<exists>d. solar_system_shapiro_delay self toas lg =
               (Inr d, lg @ replicate (length (filter (\<lambda>k. k = ''Barycenter'') (group_keys toas)))
                              skip_message)
            \<and> length d = length (rows toas)
            \<and> (\<forall>i<length (rows toas).
                  d ! i = foldl np_add (Fin 0) (contributions self toas i)))"
  proof
    assume c: "complete_batch self toas"
    from groups_loop_total[OF c, of "replicate (length (rows toas)) (Fin 0)" lg]
    show "\<exists>d. solar_system_shapiro_delay self toas lg =
               (Inr d, lg @ replicate (length (filter (\<lambda>k. k = ''Barycenter'') (group_keys toas)))
                              skip_message)
            \<and> length d = length (rows toas)
            \<and> (\<forall>i<length (rows toas).
                  d ! i = foldl np_add (Fin 0) (contributions self toas i))"
      by (auto simp: solar_system_shapiro_delay_def)
  qed
  show ?thesis
    using a b delay_vector_steps[of self toas lg d' lg' names grp psr_dir loind hiind pl
                delay delay']
    by blast
qed

section \<open>A missing planetary column\<close>

lemma planets_loop_missing:
  assumes "pl \<in> set pls" "pos_column pl \<notin> set names"
  shows "\<exists>e. planets_loop self names grp psr_dir lo hi pls delay = Inl e"
  using assms
proof (induction pls arbitrary: delay)
  case Nil
  then show ?case by simp
next
  case (Cons p pls)
  show ?case
  proof (cases "add_obj_delay self names grp psr_dir lo hi p delay")
    case (Inl e)
    then show ?thesis by simp
  next
    case (Inr d1)
    then have "p \<noteq> pl" using add_obj_delay_Inr(1)[OF Inr] Cons.prems(2) by auto
    then have "pl \<in> set pls" using Cons.prems(1) by simp
    then show ?thesis using Cons.IH[OF _ Cons.prems(2)] Inr by simp
  qed
qed

lemma group_body_missing:
  assumes "PLANET_SHAPIRO self" "key \<noteq> ''Barycenter''"
    and "pl \<in> set [''jupiter'', ''saturn'', ''venus'', ''uranus'']"
    and "pos_column pl \<notin> set (colnames toas)"
  shows "\<exists>e. fst (group_body self toas ii key delay lg) = Inl e"
proof -
  have "\<exists>e. group_delay self (colnames toas) grp lo hi delay = Inl e" for grp lo hi
  proof (cases "ssb_to_psb_xyz self (map tdbld grp)")
    case (Inl e)
    then show ?thesis by (simp add: group_delay_def)
  next
    case (Inr psr_dir)
    show ?thesis
    proof (cases "add_obj_delay self (colnames toas) grp psr_dir lo hi ''sun'' delay")
      case (Inl e)
      then show ?thesis using Inr by (simp add: group_delay_def)
    next
      case d1: (Inr d1)
      obtain e where "planets_loop self (colnames toas) grp psr_dir lo hi
                        [''jupiter'', ''saturn'', ''venus'', ''uranus''] d1 = Inl e"
        using planets_loop_missing[OF assms(3,4)] by blast
      then show ?thesis using Inr d1 assms(1) by (simp add: group_delay_def)
    qed
  qed
  then show ?thesis
    using assms(2) by (auto simp: group_body_def split: sum.splits prod.splits)
qed

lemma groups_loop_error:
  assumes "(ii, key) \<in> set ks"
    and "\<And>delay lg. \<exists>e. fst (group_body self toas ii key delay lg) = Inl e"
  shows "\<exists>e. fst (groups_loop self toas ks delay lg) = Inl e"
  using assms(1)
proof (induction ks arbitrary: delay lg)
  case Nil
  then show ?case by simp
next
  case (Cons k ks)
  obtain jj kk where k: "k = (jj, kk)" by (cases k)
  show ?case
  proof (cases "group_body self toas jj kk delay lg")
    case (Pair r lg1)
    show ?thesis
    proof (cases r)
      case (Inl e)
      then show ?thesis using Pair k by simp
    next
      case (Inr d1)
      then have "(jj, kk) \<noteq> (ii, key)"
        using assms(2)[of delay lg] Pair by auto
      then have "(ii, key) \<in> set ks" using Cons.prems k by auto
      then show ?thesis using Cons.IH Pair Inr k by simp
    qed
  qed
qed

text \<open>
  C5. With \<open>PLANET_SHAPIRO\<close> true, a group that is not barycentric and a table without
  the position column of Jupiter, Saturn, Venus or Uranus, the call raises an exception;
  it does not return a delay vector.
\<close>

theorem missing_planet_raises:
  assumes "PLANET_SHAPIRO self"
    and "ii < length (group_keys toas)" and "group_keys toas ! ii \<noteq> ''Barycenter''"
    and "pl \<in> set [''jupiter'', ''saturn'', ''venus'', ''uranus'']"
    and "''obs_'' @ pl @ ''_pos'' \<notin> set (colnames toas)"
  shows "\<exists>e. fst (solar_system_shapiro_delay self toas lg) = Inl e"
proof -
  have "(ii, group_keys toas ! ii) \<in> set (enumerate 0 (group_keys toas))"
    using enumerate_keys_mem[OF assms(2)] .
  moreover have "\<And>delay lg. \<exists>e. fst (group_body self toas ii (group_keys toas ! ii) delay lg) = Inl e"
    using group_body_missing[OF assms(1,3,4)] assms(5) by (simp add: pos_column_def)
  ultimately show ?thesis
    unfolding solar_system_shapiro_delay_def by (rule groups_loop_error)
qed

section \<open>Determinism\<close>

lemma groups_loop_fst:
  "fst (groups_loop self toas ks delay lg1) = fst (groups_loop self toas ks delay lg2)"
proof (induction ks arbitrary: delay lg1 lg2)
  case Nil
  show ?case by simp
next
  case (Cons k ks)
  obtain ii key where k: "k = (ii, key)" by (cases k)
  obtain r1 l1 where b1: "group_body self toas ii key delay lg1 = (r1, l1)" by (cases "group_body self toas ii key delay lg1")
  obtain r2 l2 where b2: "group_body self toas ii key delay lg2 = (r2, l2)" by (cases "group_body self toas ii key delay lg2")
  have r: "r1 = r2" using group_body_fst[of self toas ii key delay lg1 lg2] b1 b2 by simp
  show ?case
  proof (cases r1)
    case (Inl e)
    then show ?thesis using b1 b2 r k by simp
  next
    case (Inr d1)
    then show ?thesis using b1 b2 r k Cons.IH[of d1 l1 l2] by simp
  qed
qed

text \<open>
  The delay vector (or the exception) does not depend on the log before the call.
\<close>

lemma delay_ignores_log:
  "fst (solar_system_shapiro_delay self toas lg1) = fst (solar_system_shapiro_delay self toas lg2)
   \<and> fst (solar_system_shapiro_delay self toas (snd (solar_system_shapiro_delay self toas lg)))
       = fst (solar_system_shapiro_delay self toas lg)"
  unfolding solar_system_shapiro_delay_def using groups_loop_fst by blast

section \<open>The concrete batch evaluated\<close>

lemma example_term: "shapiro_term (0, exp 1 * au, 0) (1, 0, 0) T = Fin (- 2 * T)"
proof -
  have "(0::real) * 1 + exp 1 * au * 0 + 0 * 0 < sqrt (0\<^sup>2 + (exp 1 * au)\<^sup>2 + 0\<^sup>2)"
    unfolding sqrt_e_au using au_pos by simp
  from shapiro_term_finite[OF this, of T] show ?thesis
    unfolding sqrt_e_au using au_pos by simp
qed

lemma example_obj:
  "ss_obj_shapiro_delay [(0, exp 1 * au, 0)] [(1, 0, 0)] T = Inr [Fin (- 2 * T)]"
  by (simp add: ss_obj_same_length example_term del: shapiro_term.simps)

lemma example_slice: "slice_iadd [a, b] 1 2 [x] = Inr [a, np_add b x]"
  by (simp add: slice_iadd_def broadcast2_def)

lemma example_group_rows:
  "groups_getitem example_toas 0 = Inr [example_bary_row]"
  "groups_getitem example_toas 1 = Inr [example_row]"
  "indices_pair example_toas 0 = Inr (0, 1)"
  "indices_pair example_toas 1 = Inr (1, 2)"
  by (simp_all add: groups_getitem_def indices_pair_def example_toas_def)

lemma example_getitem:
  "c \<in> set names \<Longrightarrow> table_getitem names [example_row] c = Inr [(0, exp 1 * au, 0)]"
  by (simp add: table_getitem_def example_row_def)

lemma example_add_obj:
  assumes c: "''obs_'' @ pl @ ''_pos'' \<in> set names"
    and m: "dict_getitem (ss_mass_sec (ss_masses example_model)) pl = Inr T"
  shows "add_obj_delay example_model names [example_row] [(1, 0, 0)] 1 2 pl [a, b]
           = Inr [a, np_add b (Fin (- 2 * T))]"
  unfolding add_obj_delay_def example_getitem[OF c] m sum.case example_obj example_slice ..

lemma example_mass:
  "dict_getitem (ss_mass_sec (ss_masses example_model)) ''sun'' = Inr 1"
  "dict_getitem (ss_mass_sec (ss_masses example_model)) ''jupiter'' = Inr 2"
  "dict_getitem (ss_mass_sec (ss_masses example_model)) ''saturn'' = Inr 3"
  "dict_getitem (ss_mass_sec (ss_masses example_model)) ''venus'' = Inr 4"
  "dict_getitem (ss_mass_sec (ss_masses example_model)) ''uranus'' = Inr 5"
  by (simp_all add: dict_getitem_def ss_mass_sec_def example_model_def example_masses_def)

lemma example_cols:
  "''obs_'' @ ''sun'' @ ''_pos'' \<in> set (colnames example_toas)"
  "''obs_'' @ ''jupiter'' @ ''_pos'' \<in> set (colnames example_toas)"
  "''obs_'' @ ''saturn'' @ ''_pos'' \<in> set (colnames example_toas)"
  "''obs_'' @ ''venus'' @ ''_pos'' \<in> set (colnames example_toas)"
  "''obs_'' @ ''uranus'' @ ''_pos'' \<in> set (colnames example_toas)"
  by (simp_all add: example_toas_def)

lemma example_group_delay:
  "group_delay example_model (colnames example_toas) [example_row] 1 2 [Fin 0, Fin 0]
     = Inr [Fin 0, Fin (- 30)]"
proof -
  have p: "ssb_to_psb_xyz example_model (map tdbld [example_row]) = Inr [(1, 0, 0)]"
    by (simp add: example_model_def)
  have pt: "PLANET_SHAPIRO example_model = True" by (simp add: example_model_def)
  note steps =
    example_add_obj[OF example_cols(1) example_mass(1)]
    example_add_obj[OF example_cols(2) example_mass(2)]
    example_add_obj[OF example_cols(3) example_mass(3)]
    example_add_obj[OF example_cols(4) example_mass(4)]
    example_add_obj[OF example_cols(5) example_mass(5)]
  have "group_delay example_model (colnames example_toas) [example_row] 1 2 [Fin 0, Fin 0]
     = Inr [Fin 0, np_add (np_add (np_add (np_add (np_add (Fin 0) (Fin (- 2 * 1))) (Fin (- 2 * 2)))
              (Fin (- 2 * 3))) (Fin (- 2 * 4))) (Fin (- 2 * 5))]"
    unfolding group_delay_def p sum.case pt if_True planets_loop.simps steps ..
  then show ?thesis by simp
qed

lemma example_delay:
  "solar_system_shapiro_delay example_model example_toas lg =
     (Inr [Fin 0, Fin (- 30)], lg @ [skip_message])"
proof -
  have k: "enumerate 0 (group_keys example_toas) = [(0, ''Barycenter''), (1, ''gbt'')]"
    by (simp add: example_toas_def)
  have z: "replicate (length (rows example_toas)) (Fin 0) = [Fin 0, Fin 0]"
    by (simp add: example_toas_def numeral_2_eq_2)
  have b0: "group_body example_model example_toas 0 ''Barycenter'' [Fin 0, Fin 0] lg
              = (Inr [Fin 0, Fin 0], lg @ [skip_message])"
    unfolding group_body_def example_group_rows by simp
  have b1: "group_body example_model example_toas 1 ''gbt'' [Fin 0, Fin 0] (lg @ [skip_message])
              = (Inr [Fin 0, Fin (- 30)], lg @ [skip_message])"
    unfolding group_body_def example_group_rows sum.case prod.case example_group_delay by simp
  show ?thesis
    unfolding solar_system_shapiro_delay_def k z groups_loop.simps b0 prod.case sum.case b1 ..
qed

lemma sqrt_e2_au: "sqrt (0\<^sup>2 + (exp 2 * au)\<^sup>2 + 0\<^sup>2) = exp 2 * au"
  using au_pos by (simp add: real_sqrt_mult)

lemma example_term2: "shapiro_term (0, exp 2 * au, 0) (1, 0, 0) T = Fin (- 4 * T)"
proof -
  have "(0::real) * 1 + exp 2 * au * 0 + 0 * 0 < sqrt (0\<^sup>2 + (exp 2 * au)\<^sup>2 + 0\<^sup>2)"
    unfolding sqrt_e2_au using au_pos by simp
  from shapiro_term_finite[OF this, of T] show ?thesis
    unfolding sqrt_e2_au using au_pos by simp
qed

lemma example3_obj:
  "ss_obj_shapiro_delay [(0, exp 1 * au, 0), (0, exp 2 * au, 0)] [(1, 0, 0), (1, 0, 0)] T
     = Inr [Fin (- 2 * T), Fin (- 4 * T)]"
  by (simp add: ss_obj_same_length example_term example_term2 del: shapiro_term.simps)

lemma example3_slice:
  "slice_iadd [a, b, c] 1 3 [x, y] = Inr [a, np_add b x, np_add c y]"
  by (simp add: slice_iadd_def broadcast2_def)

lemma example3_group_rows:
  "groups_getitem example_toas3 0 = Inr [example_bary_row]"
  "groups_getitem example_toas3 1 = Inr [example_row, example_row2]"
  "indices_pair example_toas3 0 = Inr (0, 1)"
  "indices_pair example_toas3 1 = Inr (1, 3)"
  by (simp_all add: groups_getitem_def indices_pair_def example_toas3_def)

lemma example3_getitem:
  "c \<in> set names \<Longrightarrow>
     table_getitem names [example_row, example_row2] c
       = Inr [(0, exp 1 * au, 0), (0, exp 2 * au, 0)]"
  by (simp add: table_getitem_def example_row_def example_row2_def)

lemma example3_add_obj:
  assumes c: "''obs_'' @ pl @ ''_pos'' \<in> set names"
    and m: "dict_getitem (ss_mass_sec (ss_masses self)) pl = Inr T"
  shows "add_obj_delay self names [example_row, example_row2] [(1, 0, 0), (1, 0, 0)] 1 3 pl
           [a, Fin b, Fin c] = Inr [a, Fin (b - 2 * T), Fin (c - 4 * T)]"
proof -
  have "add_obj_delay self names [example_row, example_row2] [(1, 0, 0), (1, 0, 0)] 1 3 pl
           [a, Fin b, Fin c] = Inr [a, np_add (Fin b) (Fin (- 2 * T)), np_add (Fin c) (Fin (- 4 * T))]"
    unfolding add_obj_delay_def example3_getitem[OF c] m sum.case example3_obj example3_slice ..
  then show ?thesis by simp
qed

lemma example_sun_mass:
  "dict_getitem (ss_mass_sec (ss_masses example_model_sun)) ''sun'' = Inr 1"
  by (simp add: dict_getitem_def ss_mass_sec_def example_model_sun_def example_model_def
        example_masses_def)

lemma example3_cols:
  "''obs_'' @ ''sun'' @ ''_pos'' \<in> set (colnames example_toas3)"
  "''obs_'' @ ''jupiter'' @ ''_pos'' \<in> set (colnames example_toas3)"
  "''obs_'' @ ''saturn'' @ ''_pos'' \<in> set (colnames example_toas3)"
  "''obs_'' @ ''venus'' @ ''_pos'' \<in> set (colnames example_toas3)"
  "''obs_'' @ ''uranus'' @ ''_pos'' \<in> set (colnames example_toas3)"
  by (simp_all add: example_toas3_def)

lemma example3_group_delay:
  "group_delay example_model (colnames example_toas3) [example_row, example_row2] 1 3
     [a, Fin b, Fin c] = Inr [a, Fin (b - 30), Fin (c - 60)]"
proof -
  have p: "ssb_to_psb_xyz example_model (map tdbld [example_row, example_row2])
             = Inr [(1, 0, 0), (1, 0, 0)]"
    by (simp add: example_model_def)
  have pt: "PLANET_SHAPIRO example_model = True" by (simp add: example_model_def)
  note steps =
    example3_add_obj[OF example3_cols(1) example_mass(1)]
    example3_add_obj[OF example3_cols(2) example_mass(2)]
    example3_add_obj[OF example3_cols(3) example_mass(3)]
    example3_add_obj[OF example3_cols(4) example_mass(4)]
    example3_add_obj[OF example3_cols(5) example_mass(5)]
  have "group_delay example_model (colnames example_toas3) [example_row, example_row2] 1 3
     [a, Fin b, Fin c]
     = Inr [a, Fin (b - 2 * 1 - 2 * 2 - 2 * 3 - 2 * 4 - 2 * 5),
               Fin (c - 4 * 1 - 4 * 2 - 4 * 3 - 4 * 4 - 4 * 5)]"
    unfolding group_delay_def p sum.case pt if_True planets_loop.simps steps ..
  then show ?thesis by simp
qed

lemma example3_group_delay_sun:
  "group_delay example_model_sun (colnames example_toas3) [example_row, example_row2] 1 3
     [a, Fin b, Fin c] = Inr [a, Fin (b - 2), Fin (c - 4)]"
proof -
  have p: "ssb_to_psb_xyz example_model_sun (map tdbld [example_row, example_row2])
             = Inr [(1, 0, 0), (1, 0, 0)]"
    by (simp add: example_model_def example_model_sun_def)
  have pt: "PLANET_SHAPIRO example_model_sun = False"
    by (simp add: example_model_sun_def)
  have "group_delay example_model_sun (colnames example_toas3) [example_row, example_row2] 1 3
     [a, Fin b, Fin c] = Inr [a, Fin (b - 2 * 1), Fin (c - 4 * 1)]"
    unfolding group_delay_def p sum.case pt if_False
      example3_add_obj[OF example3_cols(1) example_sun_mass] ..
  then show ?thesis by simp
qed

lemma example3_keys:
  "enumerate 0 (group_keys example_toas3) = [(0, ''Barycenter''), (1, ''gbt'')]"
  by (simp add: example_toas3_def)

lemma example3_loop:
  "groups_loop example_model example_toas3 (enumerate 0 (group_keys example_toas3))
     [a, Fin b, Fin c] lg = (Inr [a, Fin (b - 30), Fin (c - 60)], lg @ [skip_message])"
proof -
  have b0: "group_body example_model example_toas3 0 ''Barycenter'' [a, Fin b, Fin c] lg
              = (Inr [a, Fin b, Fin c], lg @ [skip_message])"
    unfolding group_body_def example3_group_rows by simp
  have b1: "group_body example_model example_toas3 1 ''gbt'' [a, Fin b, Fin c] (lg @ [skip_message])
              = (Inr [a, Fin (b - 30), Fin (c - 60)], lg @ [skip_message])"
    unfolding group_body_def example3_group_rows sum.case prod.case example3_group_delay by simp
  show ?thesis
    unfolding example3_keys groups_loop.simps b0 prod.case sum.case b1 ..
qed

lemma example3_loop_sun:
  "groups_loop example_model_sun example_toas3 (enumerate 0 (group_keys example_toas3))
     [a, Fin b, Fin c] lg = (Inr [a, Fin (b - 2), Fin (c - 4)], lg @ [skip_message])"
proof -
  have b0: "group_body example_model_sun example_toas3 0 ''Barycenter'' [a, Fin b, Fin c] lg
              = (Inr [a, Fin b, Fin c], lg @ [skip_message])"
    unfolding group_body_def example3_group_rows by simp
  have b1: "group_body example_model_sun example_toas3 1 ''gbt'' [a, Fin b, Fin c]
              (lg @ [skip_message])
              = (Inr [a, Fin (b - 2), Fin (c - 4)], lg @ [skip_message])"
    unfolding group_body_def example3_group_rows sum.case prod.case example3_group_delay_sun
    by simp
  show ?thesis
    unfolding example3_keys groups_loop.simps b0 prod.case sum.case b1 ..
qed

lemma example3_zeros:
  "replicate (length (rows example_toas3)) (Fin 0) = [Fin 0, Fin 0, Fin 0]"
  by (simp add: example_toas3_def numeral_3_eq_3)

lemma example3_delay:
  "solar_system_shapiro_delay example_model example_toas3 [] =
     (Inr [Fin 0, Fin (- 30), Fin (- 60)], [skip_message])"
  unfolding solar_system_shapiro_delay_def example3_zeros
  using example3_loop[of "Fin 0" 0 0 "[]"] by simp

lemma example3_delay_sun:
  "solar_system_shapiro_delay example_model_sun example_toas3 [] =
     (Inr [Fin 0, Fin (- 2), Fin (- 4)], [skip_message])"
  unfolding solar_system_shapiro_delay_def example3_zeros
  using example3_loop_sun[of "Fin 0" 0 0 "[]"] by simp

lemma example3_complete:
  "complete_batch example_model example_toas3"
  "complete_batch example_model_sun example_toas3"
  by (auto simp: complete_batch_def example_toas3_def example_model_def example_model_sun_def
        bodies_def)

lemma example3_sorted: "sorted (group_indices example_toas3)"
  by (simp add: example_toas3_def)

lemma example3_psr_dir:
  "psr_dir_of example_model example_toas3 1 = [(1, 0, 0), (1, 0, 0)]"
  "psr_dir_of example_model_sun example_toas3 1 = [(1, 0, 0), (1, 0, 0)]"
  by (simp_all add: psr_dir_of_def group_rows_def example_toas3_def example_model_def
        example_model_sun_def)

lemma example3_fields:
  "rows example_toas3 ! 1 = example_row"
  "rows example_toas3 ! 2 = example_row2"
  "group_indices example_toas3 ! 1 = 1"
  by (simp_all add: example_toas3_def)

lemma example3_in_group:
  "\<not> in_group example_toas3 1 0"
  "in_group example_toas3 1 1"
  "in_group example_toas3 1 2"
  by (simp_all add: in_group_def example_toas3_def)

lemma example_cells:
  "cells example_row col = (0, exp 1 * au, 0)"
  "cells example_row2 col = (0, exp 2 * au, 0)"
  by (simp_all add: example_row_def example_row2_def)

lemma example3_delay_term:
  "delay_term example_model_sun example_toas3 1 1 col T = Fin (- 2 * T)"
  "delay_term example_model_sun example_toas3 1 2 col T = Fin (- 4 * T)"
  "delay_term example_model example_toas3 1 1 col T = Fin (- 2 * T)"
  "delay_term example_model example_toas3 1 2 col T = Fin (- 4 * T)"
  unfolding delay_term_def example3_psr_dir example3_fields example_cells
  by (simp_all add: example_term example_term2 del: shapiro_term.simps)

lemma group_terms_delay_term:
  "group_terms self toas i (ii, key) =
     (if in_group toas ii i \<and> key \<noteq> ''Barycenter''
      then map (\<lambda>pl. delay_term self toas ii i (''obs_'' @ pl @ ''_pos'')
                        (mass_of (ss_masses self) pl))
             (bodies (PLANET_SHAPIRO self))
      else [])"
  by (simp add: group_terms_def delay_term_def)

lemma example3_bodies:
  "map f (bodies (PLANET_SHAPIRO example_model)) =
     [f ''sun'', f ''jupiter'', f ''saturn'', f ''venus'', f ''uranus'']"
  by (simp add: bodies_def example_model_def)

lemma example3_masses:
  "mass_of (ss_masses example_model) ''sun'' = 1"
  "mass_of (ss_masses example_model) ''jupiter'' = 2"
  "mass_of (ss_masses example_model) ''saturn'' = 3"
  "mass_of (ss_masses example_model) ''venus'' = 4"
  "mass_of (ss_masses example_model) ''uranus'' = 5"
  by (simp_all add: mass_of_simps example_model_def example_masses_def)

lemma example3_contributions:
  "contributions example_model example_toas3 0 = []"
  "contributions example_model example_toas3 1 =
     [Fin (- 2), Fin (- 4), Fin (- 6), Fin (- 8), Fin (- 10)]"
  "contributions example_model example_toas3 2 =
     [Fin (- 4), Fin (- 8), Fin (- 12), Fin (- 16), Fin (- 20)]"
  unfolding contributions_def example3_keys list.map group_terms_delay_term
  by (simp_all add: example3_in_group example3_bodies example3_delay_term example3_masses
        del: One_nat_def)

lemma example3_add_obj_sun:
  "add_obj_delay example_model (colnames example_toas3) [example_row, example_row2]
     [(1, 0, 0), (1, 0, 0)] 1 3 ''sun'' [Fin 7, Fin 5, Fin 9] = Inr [Fin 7, Fin 3, Fin 5]"
  using example3_add_obj[OF example3_cols(1) example_mass(1), of "Fin 7" 5 9] by simp

section \<open>Instances on the concrete batch\<close>

lemma example_same_except: "same_except excluded_columns example_toas example_toas_mercury"
  by (auto simp: same_except_def excluded_columns_def example_toas_mercury_def example_toas_def)

theorem ss_obj_shapiro_delay_formula_witness:
  "length [(0, exp 1 * au, 0) :: vec3] = length [(1, 0, 0) :: vec3]
   \<and> (0 * 1 + exp 1 * au * 0 + 0 * 0 < sqrt (0\<^sup>2 + (exp 1 * au)\<^sup>2 + 0\<^sup>2))
   \<and> ss_obj_shapiro_delay [(0, exp 1 * au, 0)] [(1, 0, 0)] 1 =
        Inr (map (\<lambda>((px, py, pz), (dx, dy, dz)).
               np_scale (- 2 * 1)
                 (np_log ((sqrt (px\<^sup>2 + py\<^sup>2 + pz\<^sup>2) - (px * dx + py * dy + pz * dz)) / au)))
             (zip [(0, exp 1 * au, 0)] [(1, 0, 0)]))
   \<and> ss_obj_shapiro_delay [(0, exp 1 * au, 0)] [(1, 0, 0)] 1 = Inr [Fin (- 2)]"
proof -
  have len: "length [(0, exp 1 * au, 0) :: vec3] = length [(1, 0, 0) :: vec3]" by simp
  have pos: "(0::real) * 1 + exp 1 * au * 0 + 0 * 0 < sqrt (0\<^sup>2 + (exp 1 * au)\<^sup>2 + 0\<^sup>2)"
    unfolding sqrt_e_au using au_pos by simp
  note t = ss_obj_shapiro_delay_formula[of "[(0, exp 1 * au, 0)]" "[(1, 0, 0)]" 1 0 1 "exp 1 * au" 0 0 0]
  have a: "ss_obj_shapiro_delay [(0, exp 1 * au, 0)] [(1, 0, 0)] 1 =
        Inr (map (\<lambda>((px, py, pz), (dx, dy, dz)).
               np_scale (- 2 * 1)
                 (np_log ((sqrt (px\<^sup>2 + py\<^sup>2 + pz\<^sup>2) - (px * dx + py * dy + pz * dz)) / au)))
             (zip [(0, exp 1 * au, 0)] [(1, 0, 0)]))"
    using t len by blast
  have "ss_obj_shapiro_delay [(0, exp 1 * au, 0)] [(1, 0, 0)] 1 =
          Inr [Fin (- 2 * 1 * ln ((sqrt (0\<^sup>2 + (exp 1 * au)\<^sup>2 + 0\<^sup>2)
                 - (0 * 1 + exp 1 * au * 0 + 0 * 0)) / au))]"
    using t pos by blast
  then have b: "ss_obj_shapiro_delay [(0, exp 1 * au, 0)] [(1, 0, 0)] 1 = Inr [Fin (- 2)]"
    unfolding sqrt_e_au using au_pos by simp
  show ?thesis using len pos a b by blast
qed

theorem barycenter_skip_witness:
  "sorted (group_indices example_toas)
   \<and> solar_system_shapiro_delay example_model example_toas [] =
        (Inr [Fin 0, Fin (- 30)], [skip_message])
   \<and> (0::nat) < length (group_keys example_toas)
   \<and> group_keys example_toas ! 0 = ''Barycenter''
   \<and> group_indices example_toas ! 0 \<le> 0 \<and> 0 < group_indices example_toas ! (0 + 1)
   \<and> 0 < length (rows example_toas)
   \<and> [Fin 0, Fin (- 30)] ! 0 = Fin 0
   \<and> group_body example_model example_toas 0 ''Barycenter'' [NaN, PInf] [] =
        (Inr [NaN, PInf], [] @ [skip_message])
   \<and> [skip_message] =
        [] @ replicate (length (filter (\<lambda>k. k = ''Barycenter'') (group_keys example_toas)))
               skip_message
   \<and> skip_message \<in> set [skip_message]"
proof -
  have 1: "sorted (group_indices example_toas)" by (simp add: example_toas_def)
  have 2: "solar_system_shapiro_delay example_model example_toas [] =
        (Inr [Fin 0, Fin (- 30)], [skip_message])"
    using example_delay[of "[]"] by simp
  have 3: "(0::nat) < length (group_keys example_toas)" by (simp add: example_toas_def)
  have 4: "group_keys example_toas ! 0 = ''Barycenter''" by (simp add: example_toas_def)
  have 5: "group_indices example_toas ! 0 \<le> 0" by (simp add: example_toas_def)
  have 6: "0 < group_indices example_toas ! (0 + 1)" by (simp add: example_toas_def)
  have 7: "0 < length (rows example_toas)" by (simp add: example_toas_def)
  from barycenter_skip[OF 1 2 3 4 5 6 7, of "[NaN, PInf]" "[]"]
  show ?thesis using 1 2 3 4 5 6 7 by blast
qed

lemma example_no_jupiter_error:
  "fst (solar_system_shapiro_delay example_model example_toas_no_jupiter [])
     = Inl (KeyError ''obs_jupiter_pos'')"
proof -
  have k: "enumerate 0 (group_keys example_toas_no_jupiter) = [(0, ''Barycenter''), (1, ''gbt'')]"
    by (simp add: example_toas_def example_toas_no_jupiter_def)
  have z: "replicate (length (rows example_toas_no_jupiter)) (Fin 0) = [Fin 0, Fin 0]"
    by (simp add: example_toas_def example_toas_no_jupiter_def numeral_2_eq_2)
  have g: "groups_getitem example_toas_no_jupiter 0 = Inr [example_bary_row]"
    "groups_getitem example_toas_no_jupiter 1 = Inr [example_row]"
    "indices_pair example_toas_no_jupiter 0 = Inr (0, 1)"
    "indices_pair example_toas_no_jupiter 1 = Inr (1, 2)"
    by (simp_all add: groups_getitem_def indices_pair_def example_toas_def
          example_toas_no_jupiter_def)
  have c: "colnames example_toas_no_jupiter = [''obs_sun_pos'']"
    by (simp add: example_toas_no_jupiter_def)
  have p: "ssb_to_psb_xyz example_model (map tdbld [example_row]) = Inr [(1, 0, 0)]"
    by (simp add: example_model_def)
  have pt: "PLANET_SHAPIRO example_model = True" by (simp add: example_model_def)
  have s: "add_obj_delay example_model [''obs_sun_pos''] [example_row] [(1, 0, 0)] 1 2 ''sun''
             [Fin 0, Fin 0] = Inr [Fin 0, np_add (Fin 0) (Fin (- 2 * 1))]"
    by (rule example_add_obj[OF _ example_mass(1)]) simp
  have j: "add_obj_delay example_model [''obs_sun_pos''] [example_row] [(1, 0, 0)] 1 2 ''jupiter'' d
             = Inl (KeyError ''obs_jupiter_pos'')" for d
    by (simp add: add_obj_delay_def table_getitem_def)
  have gd: "group_delay example_model [''obs_sun_pos''] [example_row] 1 2 [Fin 0, Fin 0]
              = Inl (KeyError ''obs_jupiter_pos'')"
    unfolding group_delay_def p sum.case pt if_True planets_loop.simps s j ..
  have b0: "group_body example_model example_toas_no_jupiter 0 ''Barycenter'' [Fin 0, Fin 0] []
              = (Inr [Fin 0, Fin 0], [skip_message])"
    unfolding group_body_def g by simp
  have b1: "group_body example_model example_toas_no_jupiter 1 ''gbt'' [Fin 0, Fin 0] [skip_message]
              = (Inl (KeyError ''obs_jupiter_pos''), [skip_message])"
    unfolding group_body_def g c sum.case prod.case gd by simp
  show ?thesis
    unfolding solar_system_shapiro_delay_def k z groups_loop.simps b0 prod.case sum.case b1
    by simp
qed

theorem missing_planet_raises_witness:
  "PLANET_SHAPIRO example_model
   \<and> (1::nat) < length (group_keys example_toas_no_jupiter)
   \<and> group_keys example_toas_no_jupiter ! 1 \<noteq> ''Barycenter''
   \<and> ''jupiter'' \<in> set [''jupiter'', ''saturn'', ''venus'', ''uranus'']
   \<and> ''obs_'' @ ''jupiter'' @ ''_pos'' \<notin> set (colnames example_toas_no_jupiter)
   \<and> (\<exists>e. fst (solar_system_shapiro_delay example_model example_toas_no_jupiter []) = Inl e)
   \<and> fst (solar_system_shapiro_delay example_model example_toas_no_jupiter [])
       = Inl (KeyError ''obs_jupiter_pos'')"
proof -
  have 1: "PLANET_SHAPIRO example_model" by (simp add: example_model_def)
  have 2: "(1::nat) < length (group_keys example_toas_no_jupiter)"
    by (simp add: example_toas_no_jupiter_def example_toas_def)
  have 3: "group_keys example_toas_no_jupiter ! 1 \<noteq> ''Barycenter''"
    by (simp add: example_toas_no_jupiter_def example_toas_def)
  have 4: "''jupiter'' \<in> set [''jupiter'', ''saturn'', ''venus'', ''uranus'']" by simp
  have 5: "''obs_'' @ ''jupiter'' @ ''_pos'' \<notin> set (colnames example_toas_no_jupiter)"
    by (simp add: example_toas_no_jupiter_def)
  from missing_planet_raises[OF 1 2 3 4 5, of "[]"]
  show ?thesis using 1 2 3 4 5 example_no_jupiter_error by blast
qed

theorem planet_toggle_witness:
  "(complete_batch example_model_sun example_toas3 \<and> sorted (group_indices example_toas3))
   \<and> (\<exists>d. solar_system_shapiro_delay example_model_sun example_toas3 [] =
             (Inr d, [] @ replicate (length (filter (\<lambda>k. k = ''Barycenter'')
                                        (group_keys example_toas3))) skip_message)
         \<and> length d = length (rows example_toas3)
         \<and> (\<forall>i<length (rows example_toas3).
               (\<forall>ii<length (group_keys example_toas3).
                  in_group example_toas3 ii i \<longrightarrow>
                    d ! i =
                      (if group_keys example_toas3 ! ii = ''Barycenter'' then Fin 0
                       else if PLANET_SHAPIRO example_model_sun
                       then np_add (np_add (np_add (np_add
                              (delay_term example_model_sun example_toas3 ii i ''obs_sun_pos''
                                 (Tsun (ss_masses example_model_sun)))
                              (delay_term example_model_sun example_toas3 ii i ''obs_jupiter_pos''
                                 (Tjupiter (ss_masses example_model_sun))))
                              (delay_term example_model_sun example_toas3 ii i ''obs_saturn_pos''
                                 (Tsaturn (ss_masses example_model_sun))))
                              (delay_term example_model_sun example_toas3 ii i ''obs_venus_pos''
                                 (Tvenus (ss_masses example_model_sun))))
                              (delay_term example_model_sun example_toas3 ii i ''obs_uranus_pos''
                                 (Turanus (ss_masses example_model_sun)))
                       else delay_term example_model_sun example_toas3 ii i ''obs_sun_pos''
                              (Tsun (ss_masses example_model_sun))))
               \<and> ((\<forall>ii<length (group_keys example_toas3). \<not> in_group example_toas3 ii i)
                    \<longrightarrow> d ! i = Fin 0)))
   \<and> solar_system_shapiro_delay example_model_sun example_toas3 [] =
       (Inr [Fin 0, Fin (- 2), Fin (- 4)], [skip_message])
   \<and> (complete_batch example_model example_toas3 \<and> sorted (group_indices example_toas3))
   \<and> solar_system_shapiro_delay example_model example_toas3 [] =
       (Inr [Fin 0, Fin (- 30), Fin (- 60)], [skip_message])
   \<and> (sorted (group_indices example_toas3)
      \<and> solar_system_shapiro_delay example_model_sun example_toas3 [] =
          (Inr [Fin 0, Fin (- 2), Fin (- 4)], [skip_message])
      \<and> (1::nat) < length (group_keys example_toas3)
      \<and> group_keys example_toas3 ! 1 \<noteq> ''Barycenter''
      \<and> group_indices example_toas3 ! 1 \<le> 2 \<and> 2 < group_indices example_toas3 ! (1 + 1)
      \<and> 2 < length (rows example_toas3))
   \<and> (\<exists>psr_dir.
         ssb_to_psb_xyz example_model_sun (map tdbld (group_rows example_toas3 1)) = Inr psr_dir
         \<and> [Fin 0, Fin (- 2), Fin (- 4)] ! 2 =
             (if PLANET_SHAPIRO example_model_sun
              then np_add (np_add (np_add (np_add
                     (body_term example_toas3 psr_dir 1 2 ''obs_sun_pos'' (Tsun (ss_masses example_model_sun)))
                     (body_term example_toas3 psr_dir 1 2 ''obs_jupiter_pos'' (Tjupiter (ss_masses example_model_sun))))
                     (body_term example_toas3 psr_dir 1 2 ''obs_saturn_pos'' (Tsaturn (ss_masses example_model_sun))))
                     (body_term example_toas3 psr_dir 1 2 ''obs_venus_pos'' (Tvenus (ss_masses example_model_sun))))
                     (body_term example_toas3 psr_dir 1 2 ''obs_uranus_pos'' (Turanus (ss_masses example_model_sun)))
              else body_term example_toas3 psr_dir 1 2 ''obs_sun_pos'' (Tsun (ss_masses example_model_sun))))
   \<and> same_except excluded_columns example_toas example_toas_mercury
   \<and> solar_system_shapiro_delay example_model example_toas_mercury [] =
       solar_system_shapiro_delay example_model example_toas []"
proof -
  have h1: "complete_batch example_model_sun example_toas3 \<and> sorted (group_indices example_toas3)"
    using example3_complete(2) example3_sorted by simp
  have h1': "complete_batch example_model example_toas3 \<and> sorted (group_indices example_toas3)"
    using example3_complete(1) example3_sorted by simp
  have h2: "sorted (group_indices example_toas3)
      \<and> solar_system_shapiro_delay example_model_sun example_toas3 [] =
          (Inr [Fin 0, Fin (- 2), Fin (- 4)], [skip_message])
      \<and> (1::nat) < length (group_keys example_toas3)
      \<and> group_keys example_toas3 ! 1 \<noteq> ''Barycenter''
      \<and> group_indices example_toas3 ! 1 \<le> 2 \<and> 2 < group_indices example_toas3 ! (1 + 1)
      \<and> 2 < length (rows example_toas3)"
    using example3_delay_sun by (simp add: example_toas3_def)
  note t = planet_toggle[of example_model_sun example_toas3 "[]"
             "[Fin 0, Fin (- 2), Fin (- 4)]" "[skip_message]" 1 2 example_toas3]
  note u = planet_toggle[of example_model example_toas "[]"
             "[Fin 0, Fin (- 2), Fin (- 4)]" "[skip_message]" 1 2 example_toas_mercury]
  have a: "\<exists>d. solar_system_shapiro_delay example_model_sun example_toas3 [] =
             (Inr d, [] @ replicate (length (filter (\<lambda>k. k = ''Barycenter'')
                                        (group_keys example_toas3))) skip_message)
         \<and> length d = length (rows example_toas3)
         \<and> (\<forall>i<length (rows example_toas3).
               (\<forall>ii<length (group_keys example_toas3).
                  in_group example_toas3 ii i \<longrightarrow>
                    d ! i =
                      (if group_keys example_toas3 ! ii = ''Barycenter'' then Fin 0
                       else if PLANET_SHAPIRO example_model_sun
                       then np_add (np_add (np_add (np_add
                              (delay_term example_model_sun example_toas3 ii i ''obs_sun_pos''
                                 (Tsun (ss_masses example_model_sun)))
                              (delay_term example_model_sun example_toas3 ii i ''obs_jupiter_pos''
                                 (Tjupiter (ss_masses example_model_sun))))
                              (delay_term example_model_sun example_toas3 ii i ''obs_saturn_pos''
                                 (Tsaturn (ss_masses example_model_sun))))
                              (delay_term example_model_sun example_toas3 ii i ''obs_venus_pos''
                                 (Tvenus (ss_masses example_model_sun))))
                              (delay_term example_model_sun example_toas3 ii i ''obs_uranus_pos''
                                 (Turanus (ss_masses example_model_sun)))
                       else delay_term example_model_sun example_toas3 ii i ''obs_sun_pos''
                              (Tsun (ss_masses example_model_sun))))
               \<and> ((\<forall>ii<length (group_keys example_toas3). \<not> in_group example_toas3 ii i)
                    \<longrightarrow> d ! i = Fin 0))"
    using t h1 by blast
  have b: "\<exists>psr_dir.
         ssb_to_psb_xyz example_model_sun (map tdbld (group_rows example_toas3 1)) = Inr psr_dir
         \<and> [Fin 0, Fin (- 2), Fin (- 4)] ! 2 =
             (if PLANET_SHAPIRO example_model_sun
              then np_add (np_add (np_add (np_add
                     (body_term example_toas3 psr_dir 1 2 ''obs_sun_pos'' (Tsun (ss_masses example_model_sun)))
                     (body_term example_toas3 psr_dir 1 2 ''obs_jupiter_pos'' (Tjupiter (ss_masses example_model_sun))))
                     (body_term example_toas3 psr_dir 1 2 ''obs_saturn_pos'' (Tsaturn (ss_masses example_model_sun))))
                     (body_term example_toas3 psr_dir 1 2 ''obs_venus_pos'' (Tvenus (ss_masses example_model_sun))))
                     (body_term example_toas3 psr_dir 1 2 ''obs_uranus_pos'' (Turanus (ss_masses example_model_sun)))
              else body_term example_toas3 psr_dir 1 2 ''obs_sun_pos'' (Tsun (ss_masses example_model_sun)))"
    using t h2 by blast
  have c: "solar_system_shapiro_delay example_model example_toas_mercury [] =
       solar_system_shapiro_delay example_model example_toas []"
    using u example_same_except by blast
  show ?thesis
    using h1 h1' h2 a b c example3_delay example3_delay_sun example_same_except by blast
qed

theorem delay_vector_invariant_witness:
  "(complete_batch example_model example_toas3
    \<and> length [Fin 1, Fin 2, Fin 3 :: npfloat] = length (rows example_toas3))
   \<and> (\<exists>d. groups_loop example_model example_toas3 (enumerate 0 (group_keys example_toas3))
             [Fin 1, Fin 2, Fin 3] [] =
               (Inr d, [] @ replicate (length (filter (\<lambda>k. k = ''Barycenter'')
                                          (group_keys example_toas3))) skip_message)
          \<and> length d = length (rows example_toas3)
          \<and> (\<forall>i<length (rows example_toas3).
                d ! i = foldl np_add ([Fin 1, Fin 2, Fin 3] ! i)
                          (contributions example_model example_toas3 i)))
   \<and> groups_loop example_model example_toas3 (enumerate 0 (group_keys example_toas3))
        [Fin 1, Fin 2, Fin 3] [] = (Inr [Fin 1, Fin (- 28), Fin (- 57)], [skip_message])
   \<and> contributions example_model example_toas3 2 =
        [Fin (- 4), Fin (- 8), Fin (- 12), Fin (- 16), Fin (- 20)]
   \<and> (\<exists>d. solar_system_shapiro_delay example_model example_toas3 [] =
               (Inr d, [] @ replicate (length (filter (\<lambda>k. k = ''Barycenter'')
                                          (group_keys example_toas3))) skip_message)
          \<and> length d = length (rows example_toas3)
          \<and> (\<forall>i<length (rows example_toas3).
                d ! i = foldl np_add (Fin 0) (contributions example_model example_toas3 i)))
   \<and> solar_system_shapiro_delay example_model example_toas3 [] =
        (Inr [Fin 0, Fin (- 30), Fin (- 60)], [skip_message])
   \<and> length [Fin 0, Fin (- 30), Fin (- 60)] = length (rows example_toas3)
   \<and> group_keys (example_toas3\<lparr>group_keys := []\<rparr>) = []
   \<and> solar_system_shapiro_delay example_model (example_toas3\<lparr>group_keys := []\<rparr>) [] =
       (Inr (replicate (length (rows (example_toas3\<lparr>group_keys := []\<rparr>))) (Fin 0)), [])
   \<and> add_obj_delay example_model (colnames example_toas3) [example_row, example_row2]
        [(1, 0, 0), (1, 0, 0)] 1 3 ''sun'' [Fin 7, Fin 5, Fin 9] = Inr [Fin 7, Fin 3, Fin 5]
   \<and> length [Fin 7, Fin 3, Fin 5] = length [Fin 7, Fin 5, Fin (9::real)]
   \<and> (\<exists>x. ss_obj_shapiro_delay
              (map (\<lambda>r. cells r (''obs_'' @ ''sun'' @ ''_pos'')) [example_row, example_row2])
              [(1, 0, 0), (1, 0, 0)] (mass_of (ss_masses example_model) ''sun'') = Inr x
           \<and> (\<forall>i<length [Fin 7, Fin 5, Fin (9::real)].
                 [Fin 7, Fin 3, Fin 5] ! i =
                   (if 1 \<le> i \<and> i < 3
                    then np_add ([Fin 7, Fin 5, Fin 9] ! i) (x ! bidx (length x) (i - 1))
                    else [Fin 7, Fin 5, Fin 9] ! i)))"
proof -
  have h1: "complete_batch example_model example_toas3
    \<and> length [Fin 1, Fin 2, Fin 3 :: npfloat] = length (rows example_toas3)"
    using example3_complete(1) by (simp add: example_toas3_def)
  have h2: "solar_system_shapiro_delay example_model example_toas3 [] =
        (Inr [Fin 0, Fin (- 30), Fin (- 60)], [skip_message])"
    by (rule example3_delay)
  have h3: "group_keys (example_toas3\<lparr>group_keys := []\<rparr>) = []" by simp
  note h4 = example3_add_obj_sun
  have ev: "groups_loop example_model example_toas3 (enumerate 0 (group_keys example_toas3))
        [Fin 1, Fin 2, Fin 3] [] = (Inr [Fin 1, Fin (- 28), Fin (- 57)], [skip_message])"
    using example3_loop[of "Fin 1" 2 3 "[]"] by simp
  note t = delay_vector_invariant[of example_model example_toas3 "[Fin 1, Fin 2, Fin 3]" "[]"
             "[Fin 0, Fin (- 30), Fin (- 60)]" "[skip_message]"
             "colnames example_toas3" "[example_row, example_row2]" "[(1, 0, 0), (1, 0, 0)]"
             1 3 "''sun''" "[Fin 7, Fin 5, Fin 9]" "[Fin 7, Fin 3, Fin 5]"]
  note u = delay_vector_invariant[of example_model "example_toas3\<lparr>group_keys := []\<rparr>"
             "[Fin 1, Fin 2, Fin 3]" "[]"
             "[Fin 0, Fin (- 30), Fin (- 60)]" "[skip_message]"
             "colnames example_toas3" "[example_row, example_row2]" "[(1, 0, 0), (1, 0, 0)]"
             1 3 "''sun''" "[Fin 7, Fin 5, Fin 9]" "[Fin 7, Fin 3, Fin 5]"]
  have a: "\<exists>d. groups_loop example_model example_toas3 (enumerate 0 (group_keys example_toas3))
             [Fin 1, Fin 2, Fin 3] [] =
               (Inr d, [] @ replicate (length (filter (\<lambda>k. k = ''Barycenter'')
                                          (group_keys example_toas3))) skip_message)
          \<and> length d = length (rows example_toas3)
          \<and> (\<forall>i<length (rows example_toas3).
                d ! i = foldl np_add ([Fin 1, Fin 2, Fin 3] ! i)
                          (contributions example_model example_toas3 i))"
    using t h1 by blast
  have b: "\<exists>d. solar_system_shapiro_delay example_model example_toas3 [] =
               (Inr d, [] @ replicate (length (filter (\<lambda>k. k = ''Barycenter'')
                                          (group_keys example_toas3))) skip_message)
          \<and> length d = length (rows example_toas3)
          \<and> (\<forall>i<length (rows example_toas3).
                d ! i = foldl np_add (Fin 0) (contributions example_model example_toas3 i))"
    using t h1 by blast
  have c: "length [Fin 0, Fin (- 30), Fin (- 60)] = length (rows example_toas3)"
    using t h2 by blast
  have d: "solar_system_shapiro_delay example_model (example_toas3\<lparr>group_keys := []\<rparr>) [] =
       (Inr (replicate (length (rows (example_toas3\<lparr>group_keys := []\<rparr>))) (Fin 0)), [])"
    using u h3 by blast
  have e: "length [Fin 7, Fin 3, Fin 5] = length [Fin 7, Fin 5, Fin (9::real)]
   \<and> (\<exists>x. ss_obj_shapiro_delay
              (map (\<lambda>r. cells r (''obs_'' @ ''sun'' @ ''_pos'')) [example_row, example_row2])
              [(1, 0, 0), (1, 0, 0)] (mass_of (ss_masses example_model) ''sun'') = Inr x
           \<and> (\<forall>i<length [Fin 7, Fin 5, Fin (9::real)].
                 [Fin 7, Fin 3, Fin 5] ! i =
                   (if 1 \<le> i \<and> i < 3
                    then np_add ([Fin 7, Fin 5, Fin 9] ! i) (x ! bidx (length x) (i - 1))
                    else [Fin 7, Fin 5, Fin 9] ! i)))"
    using t h4 by blast
  show ?thesis
    using h1 h2 h3 h4 ev a b c d e example3_contributions(3) by blast
qed
end
